theory Spec2Isabelle
  imports Main "HOL-Library.Word"
begin

unbundle bit_operations_syntax

section \<open>Machine types, result codes and conventions\<close>

text \<open>
  The development embeds the C sources of the attestor: \<^verbatim>\<open>crypto/cryptoHash.c\<close>,
  \<^verbatim>\<open>crypto/pqc_common.c\<close>, \<^verbatim>\<open>crypto/secure_memory.c\<close>, \<^verbatim>\<open>crypto/kyber.c\<close>,
  \<^verbatim>\<open>crypto/dilithium.c\<close>, \<^verbatim>\<open>attestation/tmp2_interface.c\<close> and
  \<^verbatim>\<open>attestation/attestation_engine.c\<close>.

  Conventions of the embedding.
  \<^item> Fixed-width C integers are words; \<open>int\<close> and \<open>unsigned\<close> are 32 bits wide, \<open>size_t\<close>
    values that only count or index are \<open>nat\<close>. The host is little-endian (the sources
    cast \<open>uint64_t\<close> and \<open>uint16_t\<close> objects to byte pointers).
  \<^item> A C array is a list. \<open>memcpy (dst, src, n)\<close> with a fresh destination is \<open>take n src\<close>.
  \<^item> A pointer argument that the function tests against \<open>NULL\<close> is an \<open>option\<close>:
    \<open>None\<close> is \<open>NULL\<close>, \<open>Some v\<close> a valid pointer to an object whose current contents are
    \<open>v\<close>. An output parameter is returned with its new contents.
  \<^item> A read of an uninitialised local or past the end of a local buffer has no defined
    value in C. Each such read takes its value from an explicit parameter of the model
    (the records \<open>kyber_stack\<close> and \<open>dilithium_stack\<close>), so every theorem holds whatever
    the indeterminate memory contains. A write past the end of an array is dropped.
\<close>

type_synonym u8 = "8 word"
type_synonym u16 = "16 word"
type_synonym u32 = "32 word"
type_synonym u64 = "64 word"

datatype pqc_result_t =
    PQC_SUCCESS
  | PQC_ERROR_INVALID_PARAMETER
  | PQC_ERROR_INSUFFICIENT_MEMORY
  | PQC_ERROR_RANDOM_GENERATION
  | PQC_ERROR_INVALID_SIGNATURE
  | PQC_ERROR_INVALID_CIPHERTEXT
  | PQC_ERROR_INVALID_KEY
  | PQC_ERROR_ALGORITHM_NOT_SUPPORTED
  | PQC_ERROR_HARDWARE_FAILURE
  | PQC_ERROR_NOT_IMPLEMENTED
  | PQC_ERROR_INTERNAL

text \<open>\<open>rd tail buf i\<close> is the C expression \<open>buf[i]\<close>: inside the array its element, past its
  end whatever the adjacent memory \<open>tail\<close> holds at that index.\<close>

definition rd :: "(nat \<Rightarrow> 'a) \<Rightarrow> 'a list \<Rightarrow> nat \<Rightarrow> 'a" where
  "rd tail buf i = (if i < length buf then buf ! i else tail i)"

text \<open>\<open>overlay new old\<close>: the bytes \<open>new\<close> written at the start of an object that held \<open>old\<close>.\<close>

definition overlay :: "'a list \<Rightarrow> 'a list \<Rightarrow> 'a list" where
  "overlay new old = new @ drop (length new) old"

subsection \<open>secure\_memory.c\<close>

definition secure_memcmp :: "u8 list \<Rightarrow> u8 list \<Rightarrow> nat \<Rightarrow> int" where
  "secure_memcmp pa pb len =
     (let result = fold (\<lambda>i r. r OR (pa ! i XOR pb ! i)) [0..<len] (0 :: u8)
      in if result \<noteq> 0 then 1 else 0)"

subsection \<open>pqc\_common.c: the random source\<close>

text \<open>
  \<open>pqc_randombytes\<close> reads \<open>length\<close> bytes from the system source. The model's source is the
  list of bytes it can still deliver: a read that gets fewer bytes than asked for is the
  short \<open>fread\<close> of the C code and fails with \<open>PQC_ERROR_RANDOM_GENERATION\<close>, leaving
  the bytes it did get in the buffer. (When the device cannot be opened the C code draws
  the bytes from \<open>rand ()\<close> and succeeds; for the callers that is a successful read, too.)
  The buffer is always a local array or a struct field, never \<open>NULL\<close>.
\<close>

type_synonym rng = "u8 list"

definition pqc_randombytes :: "rng \<Rightarrow> u8 list \<Rightarrow> nat \<Rightarrow> pqc_result_t \<times> u8 list \<times> rng" where
  "pqc_randombytes src buffer len =
     (if len = 0 then (PQC_ERROR_INVALID_PARAMETER, buffer, src)
      else if len \<le> length src then (PQC_SUCCESS, overlay (take len src) buffer, drop len src)
      else (PQC_ERROR_RANDOM_GENERATION, overlay src buffer, []))"

section \<open>cryptoHash.c: Keccak and the SHA-3 functions (generation 2)\<close>

definition keccak_round_constants :: "u64 list" where
  "keccak_round_constants =
    [0x0000000000000001, 0x0000000000008082, 0x800000000000808a,
     0x8000000080008000, 0x000000000000808b, 0x0000000080000001,
     0x8000000080008081, 0x8000000000008009, 0x000000000000008a,
     0x0000000000000088, 0x0000000080008009, 0x000000008000000a,
     0x000000008000808b, 0x800000000000008b, 0x8000000000008089,
     0x8000000000008003, 0x8000000000008002, 0x8000000000000080,
     0x000000000000800a, 0x800000008000000a, 0x8000000080008081,
     0x8000000000008080, 0x0000000080000001, 0x8000000080008008]"

definition keccak_rho_offsets :: "nat list" where
  "keccak_rho_offsets =
    [ 0,  1, 62, 28, 27, 36, 44,  6, 55, 20,
      3, 10, 43, 25, 39, 41, 45, 15, 21,  8,
     18,  2, 61, 56, 14]"

definition pi_indices :: "nat list" where
  "pi_indices =
    [0, 6, 12, 18, 24, 3, 9, 10, 16, 22, 1, 7, 13, 19, 20,
     4, 5, 11, 17, 23, 2, 8, 14, 15, 21]"

definition rol64 :: "u64 \<Rightarrow> nat \<Rightarrow> u64" where
  "rol64 x n = push_bit n x OR drop_bit (64 - n) x"

text \<open>The three loops of the theta step: the column parities \<open>C\<close>, the values \<open>D\<close>, and
  the update of the 25 lanes.\<close>

definition theta_C :: "u64 list \<Rightarrow> u64 list" where
  "theta_C st =
     map (\<lambda>x. st ! x XOR st ! (x + 5) XOR st ! (x + 10) XOR st ! (x + 15) XOR st ! (x + 20))
       [0..<5]"

definition theta_D :: "u64 list \<Rightarrow> u64 list" where
  "theta_D C = map (\<lambda>x. C ! ((x + 4) mod 5) XOR rol64 (C ! ((x + 1) mod 5)) 1) [0..<5]"

definition theta_apply :: "u64 list \<Rightarrow> u64 list \<Rightarrow> u64 list" where
  "theta_apply D st =
     fold (\<lambda>x s. fold (\<lambda>y s'. s'[x + 5 * y := s' ! (x + 5 * y) XOR D ! x]) [0..<5] s)
       [0..<5] st"

text \<open>Rho and pi: \<open>B[pi_indices[i]] = rol64 (state[i], keccak_rho_offsets[i])\<close>. Every
  index of \<open>B\<close> is written, so its initial contents do not matter.\<close>

definition rho_pi :: "u64 list \<Rightarrow> u64 list" where
  "rho_pi st =
     fold (\<lambda>i B. B[pi_indices ! i := rol64 (st ! i) (keccak_rho_offsets ! i)])
       [0..<25] (replicate 25 0)"

definition chi :: "u64 list \<Rightarrow> u64 list \<Rightarrow> u64 list" where
  "chi B st =
     fold (\<lambda>y s. fold (\<lambda>x s'. s'[x + 5 * y :=
              B ! (x + 5 * y) XOR
              (NOT (B ! ((x + 1) mod 5 + 5 * y)) AND B ! ((x + 2) mod 5 + 5 * y))])
            [0..<5] s)
       [0..<5] st"

definition iota :: "nat \<Rightarrow> u64 list \<Rightarrow> u64 list" where
  "iota r st = st[0 := st ! 0 XOR keccak_round_constants ! r]"

definition keccak_round :: "nat \<Rightarrow> u64 list \<Rightarrow> u64 list" where
  "keccak_round r st =
     (let st1 = theta_apply (theta_D (theta_C st)) st
      in iota r (chi (rho_pi st1) st1))"

definition keccak_f1600 :: "u64 list \<Rightarrow> u64 list" where
  "keccak_f1600 st = fold keccak_round [0..<24] st"

record keccak_state_t =
  ks_state :: "u64 list"
  ks_rate :: nat
  ks_capacity :: nat
  ks_pos :: nat
  ks_suffix :: u8

definition keccak_init :: "nat \<Rightarrow> u8 \<Rightarrow> keccak_state_t" where
  "keccak_init r sfx =
     \<lparr>ks_state = replicate 25 0, ks_rate = r, ks_capacity = 1600 - r, ks_pos = 0,
      ks_suffix = sfx\<rparr>"

text \<open>\<open>state_bytes\<close> is the lane array seen through a byte pointer: byte \<open>p\<close> is byte
  \<open>p mod 8\<close> (little-endian) of lane \<open>p div 8\<close>.\<close>

definition xor_state_byte :: "u64 list \<Rightarrow> nat \<Rightarrow> u8 \<Rightarrow> u64 list" where
  "xor_state_byte st p b =
     st[p div 8 := st ! (p div 8) XOR push_bit (8 * (p mod 8)) (ucast b)]"

definition state_byte :: "u64 list \<Rightarrow> nat \<Rightarrow> u8" where
  "state_byte st p = ucast (drop_bit (8 * (p mod 8)) (st ! (p div 8)))"

definition xor_chunk :: "u64 list \<Rightarrow> nat \<Rightarrow> u8 list \<Rightarrow> u64 list" where
  "xor_chunk st p bs = fold (\<lambda>i s. xor_state_byte s (p + i) (bs ! i)) [0..<length bs] st"

text \<open>The absorbing loop. It is entered with \<open>pos < rate\<close> (the four callers use the rates
  72, 136 and 168, and the loop resets \<open>pos\<close> when it reaches the rate); the recursion
  is written for that case, where every round consumes at least one byte.\<close>

function keccak_update :: "keccak_state_t \<Rightarrow> u8 list \<Rightarrow> keccak_state_t" where
  "keccak_update ctx input =
     (if length input > 0 \<and> ks_pos ctx < ks_rate ctx then
        (let chunk = (if ks_rate ctx - ks_pos ctx < length input then ks_rate ctx - ks_pos ctx
                      else length input);
             ctx1 = ctx\<lparr>ks_state := xor_chunk (ks_state ctx) (ks_pos ctx) (take chunk input),
                        ks_pos := ks_pos ctx + chunk\<rparr>;
             ctx2 = (if ks_pos ctx1 = ks_rate ctx1
                     then ctx1\<lparr>ks_state := keccak_f1600 (ks_state ctx1), ks_pos := 0\<rparr> else ctx1)
         in keccak_update ctx2 (drop chunk input))
      else ctx)"
  by pat_completeness auto
termination
  by (relation "measure (\<lambda>(ctx, input). length input)") auto

text \<open>The output loop of \<open>keccak_final\<close>: \<open>r\<close> bytes of the state per block, with a
  permutation between blocks.\<close>

function squeeze :: "nat \<Rightarrow> u64 list \<Rightarrow> nat \<Rightarrow> u8 list" where
  "squeeze r st n =
     (if n > 0 \<and> r > 0 then
        (let chunk = (if r < n then r else n)
         in map (state_byte st) [0..<chunk] @
            (if chunk < n then squeeze r (keccak_f1600 st) (n - chunk) else []))
      else [])"
  by pat_completeness auto
termination
  by (relation "measure (\<lambda>(r, st, n). n)") auto

definition keccak_final :: "keccak_state_t \<Rightarrow> nat \<Rightarrow> u8 list" where
  "keccak_final ctx outlen =
     (let st1 = xor_state_byte (ks_state ctx) (ks_pos ctx) (ks_suffix ctx);
          st2 = xor_state_byte st1 (ks_rate ctx - 1) 0x80
      in squeeze (ks_rate ctx) (keccak_f1600 st2) outlen)"

text \<open>The bodies of the four functions after their argument checks.\<close>

definition sha3_256_digest :: "u8 list \<Rightarrow> u8 list" where
  "sha3_256_digest input = keccak_final (keccak_update (keccak_init 136 0x06) input) 32"

definition sha3_512_digest :: "u8 list \<Rightarrow> u8 list" where
  "sha3_512_digest input = keccak_final (keccak_update (keccak_init 72 0x06) input) 64"

definition shake128_output :: "nat \<Rightarrow> u8 list \<Rightarrow> u8 list" where
  "shake128_output outlen input =
     keccak_final (keccak_update (keccak_init 168 0x1F) input) outlen"

definition shake256_output :: "nat \<Rightarrow> u8 list \<Rightarrow> u8 list option \<Rightarrow> u8 list" where
  "shake256_output outlen input custom =
     (let ctx = keccak_update (keccak_init 136 0x1F) input;
          ctx' = (case custom of
                    None \<Rightarrow> ctx
                  | Some cs \<Rightarrow> if length cs > 0 then keccak_update ctx cs else ctx)
      in keccak_final ctx' outlen)"

text \<open>The public functions with their argument checks. \<open>inlen\<close> is the length of the
  input list.\<close>

definition sha3_256_enhanced :: "u8 list option \<Rightarrow> u8 list option \<Rightarrow> pqc_result_t \<times> u8 list option" where
  "sha3_256_enhanced hash input =
     (case (hash, input) of
        (Some h, Some inp) \<Rightarrow> (PQC_SUCCESS, Some (overlay (sha3_256_digest inp) h))
      | _ \<Rightarrow> (PQC_ERROR_INVALID_PARAMETER, hash))"

definition sha3_512_enhanced :: "u8 list option \<Rightarrow> u8 list option \<Rightarrow> pqc_result_t \<times> u8 list option" where
  "sha3_512_enhanced hash input =
     (case (hash, input) of
        (Some h, Some inp) \<Rightarrow> (PQC_SUCCESS, Some (overlay (sha3_512_digest inp) h))
      | _ \<Rightarrow> (PQC_ERROR_INVALID_PARAMETER, hash))"

definition shake128_enhanced ::
  "u8 list option \<Rightarrow> nat \<Rightarrow> u8 list option \<Rightarrow> pqc_result_t \<times> u8 list option" where
  "shake128_enhanced output outlen input =
     (case (output, input) of
        (Some out, Some inp) \<Rightarrow>
          if outlen = 0 \<or> outlen > 65536 then (PQC_ERROR_INVALID_PARAMETER, output)
          else (PQC_SUCCESS, Some (overlay (shake128_output outlen inp) out))
      | _ \<Rightarrow> (PQC_ERROR_INVALID_PARAMETER, output))"

definition shake256_enhanced ::
  "u8 list option \<Rightarrow> nat \<Rightarrow> u8 list option \<Rightarrow> u8 list option \<Rightarrow> pqc_result_t \<times> u8 list option" where
  "shake256_enhanced output outlen input custom =
     (case (output, input) of
        (Some out, Some inp) \<Rightarrow>
          if outlen = 0 \<or> outlen > 65536 then (PQC_ERROR_INVALID_PARAMETER, output)
          else (PQC_SUCCESS, Some (overlay (shake256_output outlen inp custom) out))
      | _ \<Rightarrow> (PQC_ERROR_INVALID_PARAMETER, output))"

text \<open>The wrapper at the end of cryptoHash.c that carries the public name.\<close>

definition sha3_256 :: "u8 list option \<Rightarrow> u8 list option \<Rightarrow> pqc_result_t \<times> u8 list option" where
  "sha3_256 hash input = sha3_256_enhanced hash input"

section \<open>pqc\_common.c: the placeholder hash functions (generation 1)\<close>

text \<open>
  pqc\_common.c defines the same four public names with placeholder bodies. The
  suffix \<open>_gen1\<close> tells them apart. \<open>(uint8_t)(i & 0xFF)\<close> is \<open>of_nat i\<close> at 8 bits.
  The expansion functions index the input with \<open>i % inlen\<close>; all callers pass a
  non-empty input.
\<close>

definition xor_fold :: "nat \<Rightarrow> u8 list \<Rightarrow> u8 list" where
  "xor_fold n input =
     fold (\<lambda>i h. h[i mod n := h ! (i mod n) XOR input ! i]) [0..<length input] (replicate n 0)"

definition sha3_256_gen1_digest :: "u8 list \<Rightarrow> u8 list" where
  "sha3_256_gen1_digest input = xor_fold 32 input"

definition sha3_512_gen1_digest :: "u8 list \<Rightarrow> u8 list" where
  "sha3_512_gen1_digest input = xor_fold 64 input"

definition shake128_gen1_output :: "nat \<Rightarrow> u8 list \<Rightarrow> u8 list" where
  "shake128_gen1_output outlen input =
     map (\<lambda>i. input ! (i mod length input) XOR of_nat i) [0..<outlen]"

definition shake256_gen1_output :: "nat \<Rightarrow> u8 list \<Rightarrow> u8 list option \<Rightarrow> u8 list" where
  "shake256_gen1_output outlen input custom =
     map (\<lambda>i. let val = input ! (i mod length input) XOR of_nat i
              in (case custom of
                    None \<Rightarrow> val
                  | Some cs \<Rightarrow> if length cs > 0 then val XOR cs ! (i mod length cs) else val))
       [0..<outlen]"

definition sha3_256_gen1 :: "u8 list option \<Rightarrow> u8 list option \<Rightarrow> pqc_result_t \<times> u8 list option" where
  "sha3_256_gen1 hash input =
     (case (hash, input) of
        (Some h, Some inp) \<Rightarrow> (PQC_SUCCESS, Some (overlay (sha3_256_gen1_digest inp) h))
      | _ \<Rightarrow> (PQC_ERROR_INVALID_PARAMETER, hash))"

section \<open>The hash functions as the other modules see them\<close>

text \<open>
  kyber.c, dilithium.c and the attestation modules call \<open>sha3_256\<close>, \<open>sha3_512\<close>,
  \<open>shake128\<close> and \<open>shake256\<close> by name; which of the two sets of definitions above is
  linked is a matter of the build. The modules are therefore embedded over a record of
  the four functions, and \<open>gen1_hashes\<close> and \<open>gen2_hashes\<close> are its two instances.
  All calls from these modules pass arrays (never \<open>NULL\<close>) and a constant output
  length between 1 and 65536, so the record holds the results of the successful calls.

  dilithium.c calls \<open>shake128\<close> with six arguments (a \<open>custom\<close> block as for
  \<open>shake256\<close>) although the only prototype has four. The field \<open>shake128c\<close> stands for
  that call; the instances read it as the \<open>shake256\<close> construction of the same
  generation at SHAKE128's rate.
\<close>

record hashes =
  h_sha3_256 :: "u8 list \<Rightarrow> u8 list"
  h_sha3_512 :: "u8 list \<Rightarrow> u8 list"
  h_shake128 :: "nat \<Rightarrow> u8 list \<Rightarrow> u8 list"
  h_shake128c :: "nat \<Rightarrow> u8 list \<Rightarrow> u8 list option \<Rightarrow> u8 list"
  h_shake256 :: "nat \<Rightarrow> u8 list \<Rightarrow> u8 list option \<Rightarrow> u8 list"

definition shake128c_output :: "nat \<Rightarrow> u8 list \<Rightarrow> u8 list option \<Rightarrow> u8 list" where
  "shake128c_output outlen input custom =
     (let ctx = keccak_update (keccak_init 168 0x1F) input;
          ctx' = (case custom of
                    None \<Rightarrow> ctx
                  | Some cs \<Rightarrow> if length cs > 0 then keccak_update ctx cs else ctx)
      in keccak_final ctx' outlen)"

definition gen2_hashes :: hashes where
  "gen2_hashes =
     \<lparr>h_sha3_256 = sha3_256_digest, h_sha3_512 = sha3_512_digest,
      h_shake128 = shake128_output, h_shake128c = shake128c_output,
      h_shake256 = shake256_output\<rparr>"

definition gen1_hashes :: hashes where
  "gen1_hashes =
     \<lparr>h_sha3_256 = sha3_256_gen1_digest, h_sha3_512 = sha3_512_gen1_digest,
      h_shake128 = shake128_gen1_output, h_shake128c = shake256_gen1_output,
      h_shake256 = shake256_gen1_output\<rparr>"

section \<open>tmp2\_interface.c: the simulated TPM\<close>

text \<open>The file declares its state as \<open>tpm_state\<close> and refers to it as \<open>tmp_state\<close> in
  most places; both names are the one static object below. \<open>MAX_PCR_REGISTERS\<close> is 8.\<close>

definition MAX_PCR_REGISTERS :: nat where
  "MAX_PCR_REGISTERS = 8"

record tpm_state_t =
  tpm_initialized :: bool
  tpm_pcr_values :: "u8 list list"
  pcr_allocated :: "bool list"
  extend_count :: "u32 list"

text \<open>The static initialiser \<open>{0}\<close>.\<close>

definition tpm_state_zero :: tpm_state_t where
  "tpm_state_zero =
     \<lparr>tpm_initialized = False,
      tpm_pcr_values = replicate MAX_PCR_REGISTERS (replicate 32 0),
      pcr_allocated = replicate MAX_PCR_REGISTERS False,
      extend_count = replicate MAX_PCR_REGISTERS 0\<rparr>"

definition tpm2_init :: "tpm_state_t \<Rightarrow> pqc_result_t \<times> tpm_state_t" where
  "tpm2_init st =
     (if tpm_initialized st then (PQC_SUCCESS, st)
      else
        (PQC_SUCCESS,
         (fold (\<lambda>i s. s\<lparr>tpm_pcr_values := (tpm_pcr_values s)[i := replicate 32 0],
                        pcr_allocated := (pcr_allocated s)[i := True],
                        extend_count := (extend_count s)[i := 0]\<rparr>)
            [0..<MAX_PCR_REGISTERS] st)
         \<lparr>tpm_initialized := True\<rparr>))"

definition tpm2_read_pcr ::
  "tpm_state_t \<Rightarrow> u8 \<Rightarrow> u8 list option \<Rightarrow> pqc_result_t \<times> u8 list option" where
  "tpm2_read_pcr st pcr_index pcr_value =
     (if \<not> tpm_initialized st then (PQC_ERROR_HARDWARE_FAILURE, pcr_value)
      else if unat pcr_index \<ge> MAX_PCR_REGISTERS then (PQC_ERROR_INVALID_PARAMETER, pcr_value)
      else if \<not> pcr_allocated st ! unat pcr_index then (PQC_ERROR_HARDWARE_FAILURE, pcr_value)
      else (case pcr_value of
              None \<Rightarrow> (PQC_ERROR_INVALID_PARAMETER, pcr_value)
            | Some old \<Rightarrow>
                (PQC_SUCCESS, Some (overlay (take 32 (tpm_pcr_values st ! unat pcr_index)) old))))"

text \<open>\<open>tmp2_extend_pcr\<close> hashes into the register itself; the hash function is the linked
  \<open>sha3_256\<close>, called with two arrays.\<close>

definition tmp2_extend_pcr ::
  "hashes \<Rightarrow> tpm_state_t \<Rightarrow> u8 \<Rightarrow> u8 list option \<Rightarrow> pqc_result_t \<times> tpm_state_t" where
  "tmp2_extend_pcr H st pcr_index measurement =
     (if \<not> tpm_initialized st then (PQC_ERROR_HARDWARE_FAILURE, st)
      else if unat pcr_index \<ge> MAX_PCR_REGISTERS then (PQC_ERROR_INVALID_PARAMETER, st)
      else if \<not> pcr_allocated st ! unat pcr_index then (PQC_ERROR_HARDWARE_FAILURE, st)
      else (case measurement of
              None \<Rightarrow> (PQC_ERROR_INVALID_PARAMETER, st)
            | Some m \<Rightarrow>
                (let i = unat pcr_index;
                     extend_data = take 32 (tpm_pcr_values st ! i) @ take 32 m;
                     st1 = st\<lparr>tpm_pcr_values :=
                                (tpm_pcr_values st)[i := h_sha3_256 H extend_data]\<rparr>
                 in (PQC_SUCCESS,
                     st1\<lparr>extend_count := (extend_count st1)[i := extend_count st1 ! i + 1]\<rparr>))))"

definition tpm2_get_extend_count :: "tpm_state_t \<Rightarrow> u8 \<Rightarrow> u32" where
  "tpm2_get_extend_count st pcr_index =
     (if \<not> tpm_initialized st \<or> unat pcr_index \<ge> MAX_PCR_REGISTERS then 0
      else extend_count st ! unat pcr_index)"

definition tmp2_reset_pcr :: "tpm_state_t \<Rightarrow> u8 \<Rightarrow> tpm_state_t" where
  "tmp2_reset_pcr st pcr_index =
     (if \<not> tpm_initialized st \<or> unat pcr_index \<ge> MAX_PCR_REGISTERS then st
      else st\<lparr>tpm_pcr_values := (tpm_pcr_values st)[unat pcr_index := replicate 32 0],
              extend_count := (extend_count st)[unat pcr_index := 0]\<rparr>)"

text \<open>\<open>tpm2_cleanup\<close> (the engine calls it under the name \<open>tmp2_cleanup\<close>).\<close>

definition tpm2_cleanup :: "tpm_state_t \<Rightarrow> tpm_state_t" where
  "tpm2_cleanup st =
     (if \<not> tpm_initialized st then st
      else
        (fold (\<lambda>i s. s\<lparr>tpm_pcr_values := (tpm_pcr_values s)[i := replicate 32 0],
                       pcr_allocated := (pcr_allocated s)[i := False],
                       extend_count := (extend_count s)[i := 0]\<rparr>)
           [0..<MAX_PCR_REGISTERS] st)
        \<lparr>tpm_initialized := False\<rparr>)"

section \<open>kyber.c\<close>

definition KYBER_K :: nat where "KYBER_K = 4"
definition KYBER_N :: nat where "KYBER_N = 256"
definition KYBER_Q :: nat where "KYBER_Q = 3329"
definition KYBER_DU :: nat where "KYBER_DU = 11"
definition KYBER_DV :: nat where "KYBER_DV = 5"
definition KYBER_QINV :: nat where "KYBER_QINV = 62209"
definition KYBER_CIPHERTEXTBYTES :: nat where "KYBER_CIPHERTEXTBYTES = 1568"

definition kyber_zetas :: "u16 list" where
  "kyber_zetas =
    [2285, 2571, 2970, 1812, 1493, 1422, 287, 202,
     3158, 622, 1577, 182, 962, 2127, 1855, 1468,
     573, 2004, 264, 383, 2500, 1458, 1727, 3199,
     2648, 1017, 732, 608, 1787, 411, 3124, 1758,
     1223, 652, 2777, 1015, 2036, 1491, 3047, 1785,
     516, 3321, 3009, 2663, 1711, 2167, 126, 1469,
     2476, 3239, 3058, 830, 107, 1908, 3082, 2378,
     2931, 961, 1821, 2604, 448, 2264, 677, 2054,
     2226, 430, 555, 843, 2078, 871, 1550, 105,
     422, 587, 177, 3094, 3038, 2869, 1574, 1653,
     3083, 778, 1159, 3182, 2552, 1483, 2727, 1119,
     1739, 644, 2457, 349, 418, 329, 3173, 3254,
     817, 1097, 603, 610, 1322, 2044, 1864, 384,
     2114, 3193, 1218, 1994, 2455, 220, 2142, 1670,
     2144, 1799, 2051, 794, 1819, 2475, 2459, 478,
     3221, 3021, 996, 991, 958, 1869, 1522, 1628]"

record kyber_public_key_t =
  kpk_seed :: "u8 list"
  kpk_t :: "u8 list"

record kyber_secret_key_t =
  ksk_s :: "u8 list"
  ksk_pk :: kyber_public_key_t
  ksk_h :: "u8 list"
  ksk_z :: "u8 list"

record kyber_ciphertext_t =
  kct_u :: "u8 list"
  kct_v :: "u8 list"

text \<open>The structs hold byte arrays only, so a struct seen through \<open>(uint8_t * )\<close> is the
  concatenation of its fields (1568 bytes each).\<close>

definition kyber_pk_bytes :: "kyber_public_key_t \<Rightarrow> u8 list" where
  "kyber_pk_bytes pk = kpk_seed pk @ kpk_t pk"

definition kyber_ct_bytes :: "kyber_ciphertext_t \<Rightarrow> u8 list" where
  "kyber_ct_bytes ct = kct_u ct @ kct_v ct"

text \<open>The indeterminate memory the three functions read: the bytes behind the 768-byte
  buffer of the matrix sampling loop (its \<open>do \<dots> while\<close> does not stop at the end of
  the buffer), and the locals \<open>ct_prime\<close> and \<open>K\<close> of \<open>kyber_decapsulate\<close>, which are
  passed uninitialised to \<open>kyber_encapsulate\<close>.\<close>

record kyber_stack =
  buf_tail :: "nat \<Rightarrow> u8"
  ct_prime_uninit :: kyber_ciphertext_t
  K_uninit :: "u8 list"

definition kyber_montgomery_reduce :: "u32 \<Rightarrow> u16" where
  "kyber_montgomery_reduce a =
     (let t0 = (scast (ucast a :: 16 word) :: u32) * of_nat KYBER_QINV;
          t1 = t0 AND (push_bit 16 1 - 1);
          t2 = t1 * of_nat KYBER_Q;
          t3 = a - t2
      in ucast (drop_bit 16 t3))"

definition barrett_reduce :: "u16 \<Rightarrow> u16" where
  "barrett_reduce a =
     (let t = drop_bit 23 ((ucast a :: u32) * 5039)
      in a - ucast (t * of_nat KYBER_Q))"

text \<open>The innermost loop of \<open>ntt\<close>, \<open>for (j = start; j < start + len; j++)\<close>.\<close>

definition kyber_ntt_block :: "u16 \<Rightarrow> nat \<Rightarrow> nat \<Rightarrow> u16 list \<Rightarrow> u16 list" where
  "kyber_ntt_block zeta len start poly =
     fold (\<lambda>j p. let t = kyber_montgomery_reduce (ucast zeta * ucast (p ! (j + len)))
                 in (p[j + len := p ! j - t])[j := p ! j + t])
       [start..<start + len] poly"

text \<open>The loop over \<open>start\<close>; it leaves the inner loop with \<open>j = start + len\<close> and goes
  on at \<open>j + len\<close>. \<open>len\<close> is never 0 in the callers.\<close>

function kyber_ntt_level :: "nat \<Rightarrow> nat \<Rightarrow> nat \<Rightarrow> u16 list \<Rightarrow> u16 list \<times> nat" where
  "kyber_ntt_level len start k poly =
     (if start < KYBER_N \<and> 0 < len
      then kyber_ntt_level len (start + len + len) (k + 1)
             (kyber_ntt_block (kyber_zetas ! k) len start poly)
      else (poly, k))"
  by pat_completeness auto
termination
  by (relation "measure (\<lambda>(len, start, k, poly). KYBER_N - start)") auto

function kyber_ntt_levels :: "nat \<Rightarrow> nat \<Rightarrow> u16 list \<Rightarrow> u16 list" where
  "kyber_ntt_levels len k poly =
     (if len \<ge> 2
      then kyber_ntt_levels (len div 2) (snd (kyber_ntt_level len 0 k poly))
             (fst (kyber_ntt_level len 0 k poly))
      else poly)"
  by pat_completeness auto
termination
  by (relation "measure (\<lambda>(len, k, poly). len)") auto

definition kyber_ntt :: "u16 list \<Rightarrow> u16 list" where
  "kyber_ntt poly = kyber_ntt_levels 128 1 poly"

definition kyber_invntt_block :: "u16 \<Rightarrow> nat \<Rightarrow> nat \<Rightarrow> u16 list \<Rightarrow> u16 list" where
  "kyber_invntt_block zeta len start poly =
     fold (\<lambda>j p. let t = p ! j;
                     p1 = p[j := barrett_reduce (t + p ! (j + len))];
                     p2 = p1[j + len := t - p1 ! (j + len)]
                 in p2[j + len := kyber_montgomery_reduce (ucast zeta * ucast (p2 ! (j + len)))])
       [start..<start + len] poly"

function kyber_invntt_level :: "nat \<Rightarrow> nat \<Rightarrow> nat \<Rightarrow> u16 list \<Rightarrow> u16 list \<times> nat" where
  "kyber_invntt_level len start k poly =
     (if start < KYBER_N \<and> 0 < len
      then kyber_invntt_level len (start + len + len) (k - 1)
             (kyber_invntt_block (kyber_zetas ! k) len start poly)
      else (poly, k))"
  by pat_completeness auto
termination
  by (relation "measure (\<lambda>(len, start, k, poly). KYBER_N - start)") auto

function kyber_invntt_levels :: "nat \<Rightarrow> nat \<Rightarrow> u16 list \<Rightarrow> u16 list" where
  "kyber_invntt_levels len k poly =
     (if 0 < len \<and> len \<le> 128
      then kyber_invntt_levels (len * 2) (snd (kyber_invntt_level len 0 k poly))
             (fst (kyber_invntt_level len 0 k poly))
      else poly)"
  by pat_completeness auto
termination
  by (relation "measure (\<lambda>(len, k, poly). 129 - len)") auto

definition kyber_invntt :: "u16 list \<Rightarrow> u16 list" where
  "kyber_invntt poly =
     (let p = kyber_invntt_levels 2 127 poly
      in fold (\<lambda>j q. q[j := kyber_montgomery_reduce (1441 * ucast (q ! j))]) [0..<KYBER_N] p)"

text \<open>\<open>poly_getnoise_eta1\<close>: 128 bytes of \<open>shake256 (seed, 32, &nonce, 1)\<close>, then the
  centered binomial sampling. All 256 coefficients are written.\<close>

definition load32_le :: "u8 list \<Rightarrow> nat \<Rightarrow> u32" where
  "load32_le buf i =
     ucast (buf ! i) OR push_bit 8 (ucast (buf ! (i + 1))) OR
     push_bit 16 (ucast (buf ! (i + 2))) OR push_bit 24 (ucast (buf ! (i + 3)))"

definition poly_getnoise_eta1 :: "hashes \<Rightarrow> u8 list \<Rightarrow> u8 \<Rightarrow> u16 list" where
  "poly_getnoise_eta1 H seed nonce =
     (let buf = h_shake256 H 128 (take 32 seed) (Some [nonce])
      in fold (\<lambda>i p.
           let t = load32_le buf (4 * i)
           in fold (\<lambda>j p'.
                let d = (t AND 0x55555555) + (drop_bit 1 t AND 0x55555555)
                in p'[8 * i + j :=
                     ucast ((drop_bit (4 * j) d AND 3) - (drop_bit (4 * j + 2) d AND 3))])
              [0..<8] p)
         [0..<KYBER_N div 8] (replicate KYBER_N 0))"

definition poly_add :: "u16 list \<Rightarrow> u16 list \<Rightarrow> u16 list" where
  "poly_add a b = map (\<lambda>i. barrett_reduce (a ! i + b ! i)) [0..<KYBER_N]"

definition poly_sub :: "u16 list \<Rightarrow> u16 list \<Rightarrow> u16 list" where
  "poly_sub a b = map (\<lambda>i. barrett_reduce (a ! i - b ! i + of_nat KYBER_Q)) [0..<KYBER_N]"

text \<open>The product of two polynomials as every caller computes it: both operands through
  \<open>ntt\<close>, the pointwise \<open>montgomery_reduce\<close>, then \<open>invntt\<close>.\<close>

definition kyber_poly_mul :: "u16 list \<Rightarrow> u16 list \<Rightarrow> u16 list" where
  "kyber_poly_mul a s =
     (let temp = kyber_ntt a;
          s_ntt = kyber_ntt s
      in kyber_invntt
           (map (\<lambda>k. kyber_montgomery_reduce (ucast (temp ! k) * ucast (s_ntt ! k)))
              [0..<KYBER_N]))"

definition matrix_vector_mul ::
  "u16 list list list \<Rightarrow> u16 list list \<Rightarrow> bool \<Rightarrow> u16 list list" where
  "matrix_vector_mul A s transposed =
     map (\<lambda>i. fold (\<lambda>j ti.
                  poly_add ti
                    (kyber_poly_mul (A ! (if transposed then j else i) ! (if transposed then i else j))
                       (s ! j)))
               [0..<KYBER_K] (replicate KYBER_N 0))
       [0..<KYBER_K]"

text \<open>The sampling of one matrix coefficient: the \<open>do \<dots> while\<close> loop on \<open>pos\<close>.\<close>

function sample_coeff :: "(nat \<Rightarrow> u8) \<Rightarrow> u8 list \<Rightarrow> nat \<Rightarrow> u16 \<times> nat" where
  "sample_coeff tail buf pos =
     (let val = ((ucast (rd tail buf pos) :: u16) OR push_bit 8 (ucast (rd tail buf (pos + 1))))
                AND 0x1FFF;
          pos' = pos + 2
      in if val \<ge> of_nat KYBER_Q \<and> pos' < 3 * KYBER_N - 1
         then sample_coeff tail buf pos' else (val, pos'))"
  by pat_completeness auto
termination
  by (relation "measure (\<lambda>(tail, buf, pos). 3 * KYBER_N - pos)") (auto simp: KYBER_N_def)

definition sample_poly :: "(nat \<Rightarrow> u8) \<Rightarrow> u8 list \<Rightarrow> u16 list" where
  "sample_poly tail buf =
     fst (fold (\<lambda>k (p, pos). let (val, pos') = sample_coeff tail buf pos
                              in (p[k := val], pos'))
            [0..<KYBER_N] (replicate KYBER_N 0, 0))"

text \<open>The loop ``generate matrix A from public seed'', which \<open>kyber_keypair\<close> and
  \<open>kyber_encapsulate\<close> both contain.\<close>

definition gen_matrix :: "hashes \<Rightarrow> (nat \<Rightarrow> u8) \<Rightarrow> u8 list \<Rightarrow> u16 list list list" where
  "gen_matrix H tail publicseed =
     map (\<lambda>i. map (\<lambda>j. let seed_ext = take 32 publicseed @ [of_nat j, of_nat i];
                          buf = h_shake128 H (3 * KYBER_N) seed_ext
                      in sample_poly tail buf)
                [0..<KYBER_K])
       [0..<KYBER_K]"

text \<open>Packing of \<open>t\<close> into the public key. The body increments \<open>j\<close> itself when it has
  packed a second coefficient.\<close>

function pack_t_row :: "nat \<Rightarrow> u16 list \<Rightarrow> nat \<Rightarrow> u8 list \<Rightarrow> u8 list" where
  "pack_t_row i trow j pkt =
     (if j < KYBER_N then
        (let idx = i * KYBER_N + j;
             nxt = (if j + 1 < KYBER_N then trow ! (j + 1) else 0);
             pkt1 = pkt[idx * 3 div 2 := ucast (trow ! j AND 0xFF)];
             pkt2 = pkt1[idx * 3 div 2 + 1 :=
                      ucast ((ucast (drop_bit 8 (trow ! j)) :: u32) OR push_bit 4 (ucast nxt))]
         in if j + 1 < KYBER_N
            then pack_t_row i trow (j + 2)
                   (pkt2[idx * 3 div 2 + 2 := ucast (drop_bit 4 (trow ! (j + 1)))])
            else pack_t_row i trow (j + 1) pkt2)
      else pkt)"
  by pat_completeness auto
termination
  by (relation "measure (\<lambda>(i, trow, j, pkt). KYBER_N - j)") auto

definition kyber_keypair ::
  "hashes \<Rightarrow> kyber_stack \<Rightarrow> rng \<Rightarrow> kyber_public_key_t option \<Rightarrow> kyber_secret_key_t option \<Rightarrow>
   pqc_result_t \<times> kyber_public_key_t option \<times> kyber_secret_key_t option \<times> rng" where
  "kyber_keypair H stk src pk sk =
     (case (pk, sk) of
        (Some pk0, Some sk0) \<Rightarrow>
          (let (r1, publicseed, src1) = pqc_randombytes src (replicate 32 0) 32
           in if r1 \<noteq> PQC_SUCCESS then (PQC_ERROR_RANDOM_GENERATION, pk, sk, src1)
              else
                (let (r2, noiseseed, src2) = pqc_randombytes src1 (replicate 32 0) 32
                 in if r2 \<noteq> PQC_SUCCESS then (PQC_ERROR_RANDOM_GENERATION, pk, sk, src2)
                    else
                      (let A = gen_matrix H (buf_tail stk) publicseed;
                           s = map (\<lambda>i. poly_getnoise_eta1 H noiseseed (of_nat i)) [0..<KYBER_K];
                           e = map (\<lambda>i. poly_getnoise_eta1 H noiseseed (of_nat (i + KYBER_K)))
                                 [0..<KYBER_K];
                           t0 = matrix_vector_mul A s False;
                           t = map (\<lambda>i. poly_add (t0 ! i) (e ! i)) [0..<KYBER_K];
                           pk1 = \<lparr>kpk_seed = overlay (take 32 publicseed) (kpk_seed pk0),
                                  kpk_t = fold (\<lambda>i pkt. pack_t_row i (t ! i) 0 pkt)
                                            [0..<KYBER_K] (kpk_t pk0)\<rparr>;
                           sks = fold (\<lambda>i b. fold (\<lambda>j b'. b'[i * KYBER_N + j := ucast (s ! i ! j)])
                                                [0..<KYBER_N] b)
                                   [0..<KYBER_K] (ksk_s sk0);
                           (r3, z, src3) = pqc_randombytes src2 (ksk_z sk0) 32;
                           sk1 = \<lparr>ksk_s = sks, ksk_pk = pk1,
                                  ksk_h = overlay (h_sha3_256 H (kyber_pk_bytes pk1)) (ksk_h sk0),
                                  ksk_z = z\<rparr>
                       in (PQC_SUCCESS, Some pk1, Some sk1, src3))))
      | _ \<Rightarrow> (PQC_ERROR_INVALID_PARAMETER, pk, sk, src))"

text \<open>Unpacking of \<open>t\<close> from the public key (\<open>j\<close> advances by 2).\<close>

definition unpack_t :: "u8 list \<Rightarrow> u16 list list" where
  "unpack_t pkt =
     map (\<lambda>i. fold (\<lambda>m row.
                  let j = 2 * m;
                      idx = i * KYBER_N + j;
                      row1 = row[j := ucast (pkt ! (idx * 3 div 2)) OR
                                      push_bit 8 (ucast (pkt ! (idx * 3 div 2 + 1) AND 0x0F))]
                  in if j + 1 < KYBER_N
                     then row1[j + 1 := ucast (drop_bit 4 (pkt ! (idx * 3 div 2 + 1))) OR
                                        push_bit 4 (ucast (pkt ! (idx * 3 div 2 + 2)))]
                     else row1)
               [0..<KYBER_N div 2] (replicate KYBER_N 0))
       [0..<KYBER_K]"

text \<open>
  Compression and packing of one coefficient at bit width \<open>d\<close>. The source line
  \<^verbatim>\<open>uint16_t compressed = ((uint32_t)u[i][j] << KYBER_DU) + KYBER_Q / 2) / KYBER_Q;\<close>
  lacks an opening parenthesis; it is read as
  \<^verbatim>\<open>(((uint32_t)u[i][j] << KYBER_DU) + KYBER_Q / 2) / KYBER_Q\<close>. The bytes of the
  ciphertext are updated with \<open>|=\<close>, on top of what the object held before.
\<close>

definition compress :: "nat \<Rightarrow> u16 \<Rightarrow> u16" where
  "compress d x =
     (ucast ((push_bit d (ucast x :: u32) + of_nat (KYBER_Q div 2)) div of_nat KYBER_Q) :: u16)
     AND (push_bit d 1 - 1)"

definition pack_bits :: "nat \<Rightarrow> nat \<Rightarrow> u16 \<Rightarrow> u8 list \<Rightarrow> u8 list" where
  "pack_bits d idx compressed bytes =
     (let b1 = bytes[idx * d div 8 :=
                 bytes ! (idx * d div 8) OR
                 ucast (push_bit (idx * d mod 8) (ucast compressed :: u32))]
      in if idx * d mod 8 + d > 8
         then b1[idx * d div 8 + 1 :=
                b1 ! (idx * d div 8 + 1) OR
                ucast (drop_bit (8 - idx * d mod 8) (ucast compressed :: u32))]
         else b1)"

definition unpack_bits :: "nat \<Rightarrow> nat \<Rightarrow> u8 list \<Rightarrow> u16" where
  "unpack_bits d idx bytes =
     (let c0 = (ucast (drop_bit (idx * d mod 8) (bytes ! (idx * d div 8))) :: u16);
          c1 = (if idx * d mod 8 + d > 8
                then c0 OR ucast (push_bit (8 - idx * d mod 8)
                                    (ucast (bytes ! (idx * d div 8 + 1)) :: u32))
                else c0)
      in c1 AND (push_bit d 1 - 1))"

definition decompress :: "nat \<Rightarrow> u16 \<Rightarrow> u16" where
  "decompress d compressed =
     ucast (drop_bit d ((ucast compressed :: u32) * of_nat KYBER_Q + push_bit (d - 1) 1))"

text \<open>
  \<open>kyber_encapsulate\<close>. \<open>sha3_512\<close> writes 64 bytes to the 32-byte array \<open>coins\<close>; the
  array keeps the first 32. The shared secret is \<open>sha3_256\<close> of the first 32 bytes of
  \<open>hash_input\<close>, into which \<open>m\<close> has just been copied again.
\<close>

definition kyber_encapsulate ::
  "hashes \<Rightarrow> kyber_stack \<Rightarrow> rng \<Rightarrow> kyber_ciphertext_t option \<Rightarrow> u8 list option \<Rightarrow>
   kyber_public_key_t option \<Rightarrow>
   pqc_result_t \<times> kyber_ciphertext_t option \<times> u8 list option \<times> rng" where
  "kyber_encapsulate H stk src ct shared_secret pk =
     (case (ct, shared_secret, pk) of
        (Some ct0, Some ss0, Some pkv) \<Rightarrow>
          (let (r1, m, src1) = pqc_randombytes src (replicate 32 0) 32
           in if r1 \<noteq> PQC_SUCCESS then (PQC_ERROR_RANDOM_GENERATION, ct, shared_secret, src1)
              else
                (let pk_hash = h_sha3_256 H (kyber_pk_bytes pkv);
                     hash_input = take 32 m @ take 32 pk_hash;
                     coins = take 32 (h_sha3_512 H hash_input);
                     A = gen_matrix H (buf_tail stk) (kpk_seed pkv);
                     t = unpack_t (kpk_t pkv);
                     r = map (\<lambda>i. poly_getnoise_eta1 H coins (of_nat i)) [0..<KYBER_K];
                     e1 = map (\<lambda>i. poly_getnoise_eta1 H coins (of_nat (i + KYBER_K)))
                            [0..<KYBER_K];
                     e2 = poly_getnoise_eta1 H coins (of_nat (2 * KYBER_K));
                     u0 = matrix_vector_mul A r True;
                     u = map (\<lambda>i. poly_add (u0 ! i) (e1 ! i)) [0..<KYBER_K];
                     tr = fold (\<lambda>i acc. poly_add acc (kyber_poly_mul (t ! i) (r ! i)))
                            [0..<KYBER_K] (replicate KYBER_N 0);
                     v0 = poly_add tr e2;
                     v = map (\<lambda>i. let bit = drop_bit (i mod 8) (m ! (i div 8)) AND 1
                                   in barrett_reduce
                                        (v0 ! i + ucast bit * of_nat ((KYBER_Q + 1) div 2)))
                           [0..<KYBER_N];
                     ctu = fold (\<lambda>i b. fold (\<lambda>j b'.
                                   pack_bits KYBER_DU (i * KYBER_N + j)
                                     (compress KYBER_DU (u ! i ! j)) b')
                                 [0..<KYBER_N] b)
                             [0..<KYBER_K] (kct_u ct0);
                     ctv = fold (\<lambda>i b. pack_bits KYBER_DV i (compress KYBER_DV (v ! i)) b)
                             [0..<KYBER_N] (kct_v ct0);
                     hash_input' = overlay (take 32 m) hash_input;
                     K = h_sha3_256 H (take 32 hash_input')
                 in (PQC_SUCCESS, Some \<lparr>kct_u = ctu, kct_v = ctv\<rparr>,
                     Some (overlay (take 32 K) ss0), src1)))
      | _ \<Rightarrow> (PQC_ERROR_INVALID_PARAMETER, ct, shared_secret, src))"

text \<open>
  \<open>kyber_decapsulate\<close>. The call \<open>kyber_encapsulate (&ct_prime, K, &sk->pk)\<close> gets the
  uninitialised locals and its result code is not looked at. The second \<open>memcpy\<close> copies
  the whole ciphertext behind the 32 bytes of \<open>z\<close> in \<open>hash_input\<close> and
  \<open>sha3_256\<close> reads the 1600 bytes back.
\<close>

definition kyber_decapsulate ::
  "hashes \<Rightarrow> kyber_stack \<Rightarrow> rng \<Rightarrow> u8 list option \<Rightarrow> kyber_ciphertext_t option \<Rightarrow>
   kyber_secret_key_t option \<Rightarrow> pqc_result_t \<times> u8 list option \<times> rng" where
  "kyber_decapsulate H stk src shared_secret ct sk =
     (case (shared_secret, ct, sk) of
        (Some ss0, Some ctv, Some skv) \<Rightarrow>
          (let s = map (\<lambda>i. map (\<lambda>j. (ucast (ksk_s skv ! (i * KYBER_N + j)) :: u16)) [0..<KYBER_N])
                     [0..<KYBER_K];
               u = map (\<lambda>i. map (\<lambda>j. decompress KYBER_DU
                                        (unpack_bits KYBER_DU (i * KYBER_N + j) (kct_u ctv)))
                              [0..<KYBER_N])
                     [0..<KYBER_K];
               v = map (\<lambda>i. decompress KYBER_DV (unpack_bits KYBER_DV i (kct_v ctv)))
                     [0..<KYBER_N];
               su = fold (\<lambda>i acc. poly_add acc (kyber_poly_mul (s ! i) (u ! i)))
                      [0..<KYBER_K] (replicate KYBER_N 0);
               mp = poly_sub v su;
               m = map (\<lambda>i. fold (\<lambda>j mi.
                               let t0 = (ucast (push_bit 1 (ucast (mp ! (i * 8 + j)) :: u32) +
                                                of_nat (KYBER_Q div 2)) :: u16);
                                   t = (t0 div of_nat KYBER_Q) AND 1
                               in mi OR ucast (push_bit j (ucast t :: u32)))
                             [0..<8] (0 :: u8))
                     [0..<32];
               hash_input = take 32 m @ take 32 (ksk_h skv);
               Kr = h_sha3_512 H hash_input;
               (r, ct_prime, K1, src1) =
                  kyber_encapsulate H stk src (Some (ct_prime_uninit stk)) (Some (K_uninit stk))
                    (Some (ksk_pk skv));
               ct_match = secure_memcmp (kyber_ct_bytes ctv) (kyber_ct_bytes (the ct_prime))
                            KYBER_CIPHERTEXTBYTES;
               K = (if ct_match \<noteq> 0
                    then h_sha3_256 H (take 32 (ksk_z skv) @ kyber_ct_bytes ctv)
                    else the K1)
           in (PQC_SUCCESS, Some (overlay (take 32 K) ss0), src1))
      | _ \<Rightarrow> (PQC_ERROR_INVALID_PARAMETER, shared_secret, src))"

section \<open>dilithium.c\<close>

definition DILITHIUM_K :: nat where "DILITHIUM_K = 8"
definition DILITHIUM_L :: nat where "DILITHIUM_L = 7"
definition DILITHIUM_TAU :: nat where "DILITHIUM_TAU = 60"
definition DILITHIUM_BETA :: nat where "DILITHIUM_BETA = 196"
definition DILITHIUM_GAMMA1 :: nat where "DILITHIUM_GAMMA1 = 2 ^ 19"
definition DILITHIUM_N :: nat where "DILITHIUM_N = 256"
definition DILITHIUM_Q :: nat where "DILITHIUM_Q = 8380417"
definition DILITHIUM_GAMMA2 :: nat where "DILITHIUM_GAMMA2 = (DILITHIUM_Q - 1) div 32"
definition DILITHIUM_OMEGA :: nat where "DILITHIUM_OMEGA = 75"
definition DILITHIUM_D :: nat where "DILITHIUM_D = 13"
definition DILITHIUM_QINV :: nat where "DILITHIUM_QINV = 58728449"

definition dilithium_zetas :: "u32 list" where
  "dilithium_zetas =
    [0, 25847, 5771523, 7861508, 237124, 7602457, 7504169, 466468,
     1826347, 2353451, 8021166, 6288512, 3119733, 5495562, 3111497, 2680103,
     2725464, 1024112, 7300517, 3585928, 7830929, 7260833, 2619752, 6271868,
     6262231, 4520680, 6980856, 5102745, 1757237, 8360995, 4010497, 280005,
     2706023, 95776, 3077325, 3530437, 6718724, 4788269, 5842901, 3915439,
     4519302, 5336701, 3574422, 5512770, 3539968, 8079950, 2348700, 7841118,
     6681150, 6736599, 3505694, 4558682, 3507263, 6239768, 6779997, 3699596,
     811944, 531354, 954230, 3881043, 3900724, 5823537, 2071892, 5582638,
     4450022, 6851714, 4702672, 5339162, 6927966, 3475950, 2176455, 6795196,
     7122806, 1939314, 4296819, 7380215, 5190273, 5223087, 4747489, 126922,
     3412210, 7396998, 2147896, 2715295, 5412772, 4686924, 7969390, 5903370,
     7709315, 7151892, 8357436, 7072248, 7998430, 1349076, 1852771, 6949987,
     5037034, 264944, 508951, 3097992, 44288, 7280319, 904516, 3958618,
     4656075, 8371839, 1653064, 5130689, 2389356, 8169440, 759969, 7063561,
     189548, 4827145, 3159746, 6529015, 5971092, 8202977, 1315589, 1341330,
     1285669, 6795489, 7567685, 6940675, 5361315, 4499357, 4751448, 3839961,
     2091667, 3407706, 2316500, 3817976, 5037939, 2244091, 5933984, 4817955,
     266997, 2434439, 7144689, 3513181, 4860065, 4621053, 7183191, 5187039,
     900702, 1859098, 909542, 819034, 495491, 6767243, 8337157, 7857917,
     7725090, 5257975, 2031748, 3207046, 4823422, 7855319, 7611795, 4784579,
     342297, 286988, 5942594, 4108315, 3437287, 5038140, 1735879, 203044,
     2842341, 2691481, 5790267, 1265009, 4055324, 1247620, 2486353, 1595974,
     4613401, 1250494, 2635921, 4832145, 5386378, 1869119, 1903435, 7329447,
     7047359, 1237275, 5062207, 6950192, 7929317, 1312455, 3306115, 6417775,
     7100756, 1917081, 5834105, 7005614, 1500165, 777191, 2235880, 3406031,
     7838005, 5548557, 6709241, 6533464, 5796124, 4656147, 594136, 4603424,
     6366809, 2432395, 2454455, 8215696, 1957272, 3369112, 185531, 7173032,
     5196991, 162844, 1616392, 3014001, 810149, 1652634, 4686184, 6581310,
     5341501, 3523897, 3866901, 269760, 2213111, 7404533, 1717735, 472078,
     7953734, 1723600, 6577327, 1910376, 6712985, 7276084, 8119771, 4546524,
     5441381, 6144432, 7959518, 6094090, 183443, 7403526, 1612842, 4834730,
     7826001, 3919660, 8332111, 7018208, 3937738, 1400424, 7534263, 1976782]"

text \<open>
  Modelled from the spec: \<^verbatim>\<open>dilithium.h\<close>, which declares the key types, is not among the
  sources. The spec gives the public key as \<open>\<rho>\<close> (32 bytes) followed by the packed
  \<open>t1\<close> (\<open>k \<sqdot> n \<sqdot> 10 / 8 = 2560\<close> bytes), 2592 bytes in all, and the secret key as
  \<open>\<rho>\<close>, \<open>K\<close>, \<open>tr\<close> (64 bytes) and the arrays \<open>s1\<close>, \<open>s2\<close>, \<open>t0\<close>. The element type
  of these three arrays is not known; it is the type parameter \<open>'c\<close>, and
  \<open>coeff_store\<close> and \<open>coeff_load\<close> are the conversions C applies when a 32-bit
  coefficient is stored into such an element and read back.
\<close>

record dilithium_public_key_t =
  dpk_rho :: "u8 list"
  dpk_t1 :: "u8 list"

record 'c dilithium_secret_key_t =
  dsk_rho :: "u8 list"
  dsk_key :: "u8 list"
  dsk_tr :: "u8 list"
  dsk_s1 :: "'c list"
  dsk_s2 :: "'c list"
  dsk_t0 :: "'c list"

record 'c dilithium_keypair_t =
  kp_pk :: dilithium_public_key_t
  kp_sk :: "'c dilithium_secret_key_t"

record 'c dilithium_h =
  coeff_store :: "u32 \<Rightarrow> 'c"
  coeff_load :: "'c \<Rightarrow> u32"

definition dilithium_pk_bytes :: "dilithium_public_key_t \<Rightarrow> u8 list" where
  "dilithium_pk_bytes pk = dpk_rho pk @ dpk_t1 pk"

text \<open>
  The indeterminate memory the three functions read.
  \<^item> \<open>A_uninit\<close>, \<open>s1_uninit\<close>, \<open>s2_uninit\<close>: the local arrays \<open>A\<close>, \<open>s1\<close>, \<open>s2\<close> before
    the sampling loops, which stop at the end of their 168- resp. 136-byte buffers and
    leave the remaining coefficients as they were.
  \<^item> \<open>z_uninit\<close>: the local \<open>z\<close> of \<open>dilithium_verify\<close>, filled only as far as the
    signature reaches.
  \<^item> \<open>gamma1_tail\<close>, \<open>c_tail\<close>, \<open>t1_tail\<close>, \<open>sig_tail\<close>: the memory behind the 640-byte
    buffer of \<open>poly_uniform_gamma1\<close>, behind the 32-byte challenge \<open>c\<close>, behind
    \<open>pk->t1\<close> and behind the signature, all of which are read past their ends.
\<close>

record dilithium_stack =
  A_uninit :: "u32 list list list"
  s1_uninit :: "u32 list list"
  s2_uninit :: "u32 list list"
  z_uninit :: "u32 list list"
  gamma1_tail :: "nat \<Rightarrow> u8"
  c_tail :: "nat \<Rightarrow> u8"
  t1_tail :: "nat \<Rightarrow> u8"
  sig_tail :: "nat \<Rightarrow> u8"

definition dilithium_montgomery_reduce :: "u64 \<Rightarrow> u32" where
  "dilithium_montgomery_reduce a =
     (let t0 = (a * of_nat DILITHIUM_QINV) AND (push_bit 32 1 - 1);
          t1 = t0 * of_nat DILITHIUM_Q;
          t2 = a - t1
      in ucast (drop_bit 32 t2))"

definition reduce32 :: "u32 \<Rightarrow> u32" where
  "reduce32 a =
     (let t = drop_bit 23 (a + push_bit 22 1)
      in a - t * of_nat DILITHIUM_Q)"

definition dilithium_ntt_block :: "u32 \<Rightarrow> nat \<Rightarrow> nat \<Rightarrow> u32 list \<Rightarrow> u32 list" where
  "dilithium_ntt_block zeta len start poly =
     fold (\<lambda>j p. let t = dilithium_montgomery_reduce (ucast zeta * ucast (p ! (j + len)))
                 in (p[j + len := p ! j - t])[j := p ! j + t])
       [start..<start + len] poly"

function dilithium_ntt_level :: "nat \<Rightarrow> nat \<Rightarrow> nat \<Rightarrow> u32 list \<Rightarrow> u32 list \<times> nat" where
  "dilithium_ntt_level len start k poly =
     (if start < DILITHIUM_N \<and> 0 < len
      then dilithium_ntt_level len (start + len + len) (k + 1)
             (dilithium_ntt_block (dilithium_zetas ! k) len start poly)
      else (poly, k))"
  by pat_completeness auto
termination
  by (relation "measure (\<lambda>(len, start, k, poly). DILITHIUM_N - start)") auto

function dilithium_ntt_levels :: "nat \<Rightarrow> nat \<Rightarrow> u32 list \<Rightarrow> u32 list" where
  "dilithium_ntt_levels len k poly =
     (if len > 0
      then dilithium_ntt_levels (len div 2) (snd (dilithium_ntt_level len 0 k poly))
             (fst (dilithium_ntt_level len 0 k poly))
      else poly)"
  by pat_completeness auto
termination
  by (relation "measure (\<lambda>(len, k, poly). len)") auto

definition dilithium_ntt :: "u32 list \<Rightarrow> u32 list" where
  "dilithium_ntt poly = dilithium_ntt_levels 128 1 poly"

definition dilithium_invntt_block :: "u32 \<Rightarrow> nat \<Rightarrow> nat \<Rightarrow> u32 list \<Rightarrow> u32 list" where
  "dilithium_invntt_block zeta len start poly =
     fold (\<lambda>j p. let t = p ! j;
                     p1 = p[j := t + p ! (j + len)];
                     p2 = p1[j + len := t - p1 ! (j + len)]
                 in p2[j + len :=
                      dilithium_montgomery_reduce (ucast zeta * ucast (p2 ! (j + len)))])
       [start..<start + len] poly"

function dilithium_invntt_level :: "nat \<Rightarrow> nat \<Rightarrow> nat \<Rightarrow> u32 list \<Rightarrow> u32 list \<times> nat" where
  "dilithium_invntt_level len start k poly =
     (if start < DILITHIUM_N \<and> 0 < len
      then dilithium_invntt_level len (start + len + len) (k - 1)
             (dilithium_invntt_block (dilithium_zetas ! k) len start poly)
      else (poly, k))"
  by pat_completeness auto
termination
  by (relation "measure (\<lambda>(len, start, k, poly). DILITHIUM_N - start)") auto

function dilithium_invntt_levels :: "nat \<Rightarrow> nat \<Rightarrow> u32 list \<Rightarrow> u32 list" where
  "dilithium_invntt_levels len k poly =
     (if 0 < len \<and> len < DILITHIUM_N
      then dilithium_invntt_levels (len * 2) (snd (dilithium_invntt_level len 0 k poly))
             (fst (dilithium_invntt_level len 0 k poly))
      else poly)"
  by pat_completeness auto
termination
  by (relation "measure (\<lambda>(len, k, poly). DILITHIUM_N - len)") auto

definition dilithium_invntt :: "u32 list \<Rightarrow> u32 list" where
  "dilithium_invntt poly =
     (let p = dilithium_invntt_levels 1 255 poly
      in fold (\<lambda>j q. q[j := dilithium_montgomery_reduce (41978 * ucast (q ! j))])
           [0..<DILITHIUM_N] p)"

text \<open>A \<open>uint16_t\<close> nonce seen through \<open>(uint8_t * )\<close>, two bytes.\<close>

definition nonce_bytes :: "u16 \<Rightarrow> u8 list" where
  "nonce_bytes nonce = [ucast nonce, ucast (drop_bit 8 nonce)]"

function uniform_eta_loop :: "u8 list \<Rightarrow> u32 list \<Rightarrow> nat \<Rightarrow> nat \<Rightarrow> u32 list" where
  "uniform_eta_loop buf poly ctr i =
     (if ctr < DILITHIUM_N \<and> i < 136 then
        (let t0 = (ucast (buf ! i AND 0x0F) :: u32);
             t1 = (ucast (drop_bit 4 (buf ! i)) :: u32);
             (poly1, ctr1) =
                (if t0 < 15
                 then (poly[ctr := 2 - (t0 - drop_bit 10 (205 * t0) * 5)], ctr + 1)
                 else (poly, ctr));
             (poly2, ctr2) =
                (if t1 < 15 \<and> ctr1 < DILITHIUM_N
                 then (poly1[ctr1 := 2 - (t1 - drop_bit 10 (205 * t1) * 5)], ctr1 + 1)
                 else (poly1, ctr1))
         in uniform_eta_loop buf poly2 ctr2 (i + 1))
      else poly)"
  by pat_completeness auto
termination
  by (relation "measure (\<lambda>(buf, poly, ctr, i). 136 - i)") auto

definition poly_uniform_eta :: "hashes \<Rightarrow> u32 list \<Rightarrow> u8 list \<Rightarrow> u16 \<Rightarrow> u32 list" where
  "poly_uniform_eta H poly seed nonce =
     uniform_eta_loop (h_shake256 H 136 (take 32 seed) (Some (nonce_bytes nonce))) poly 0 0"

function uniform_loop :: "u8 list \<Rightarrow> u32 list \<Rightarrow> nat \<Rightarrow> nat \<Rightarrow> u32 list" where
  "uniform_loop buf poly ctr i =
     (if ctr < DILITHIUM_N \<and> i < 168 - 2 then
        (let t = (ucast (buf ! i) OR push_bit 8 (ucast (buf ! (i + 1))) OR
                  push_bit 16 (ucast (buf ! (i + 2))) :: u32) AND 0x7FFFFF
         in if t < of_nat DILITHIUM_Q
            then uniform_loop buf (poly[ctr := t]) (ctr + 1) (i + 3)
            else uniform_loop buf poly ctr (i + 3))
      else poly)"
  by pat_completeness auto
termination
  by (relation "measure (\<lambda>(buf, poly, ctr, i). 168 - i)") auto

definition poly_uniform :: "hashes \<Rightarrow> u32 list \<Rightarrow> u8 list \<Rightarrow> u16 \<Rightarrow> u32 list" where
  "poly_uniform H poly seed nonce =
     uniform_loop (h_shake128c H 168 (take 32 seed) (Some (nonce_bytes nonce))) poly 0 0"

text \<open>\<open>poly_uniform_gamma1\<close> reads five bytes per coefficient from a 640-byte buffer, so
  from coefficient 128 on it reads behind the buffer. The fifth byte is shifted left by
  32 in a 32-bit type (not defined in C); the model shifts it out.\<close>

definition poly_uniform_gamma1 :: "hashes \<Rightarrow> (nat \<Rightarrow> u8) \<Rightarrow> u8 list \<Rightarrow> u16 \<Rightarrow> u32 list" where
  "poly_uniform_gamma1 H tail seed nonce =
     (let buf = h_shake256 H 640 (take 64 seed) (Some (nonce_bytes nonce))
      in map (\<lambda>i. let t0 = (ucast (rd tail buf (5 * i)) OR
                            push_bit 8 (ucast (rd tail buf (5 * i + 1))) OR
                            push_bit 16 (ucast (rd tail buf (5 * i + 2))) OR
                            push_bit 24 (ucast (rd tail buf (5 * i + 3))) :: u32);
                      t1 = t0 OR push_bit 32 (ucast (rd tail buf (5 * i + 4)));
                      t = t1 AND (push_bit 20 1 - 1)
                  in of_nat DILITHIUM_GAMMA1 - t)
           [0..<DILITHIUM_N])"

definition power2round :: "u32 \<Rightarrow> u32 \<times> u32" where
  "power2round a =
     (let a1 = drop_bit DILITHIUM_D (a + push_bit (DILITHIUM_D - 1) 1 - 1);
          a0 = a - push_bit DILITHIUM_D a1
      in (a1, a0))"

definition decompose :: "u32 \<Rightarrow> u32 \<times> u32" where
  "decompose a =
     (let a1_prime = drop_bit 7 (a + 127);
          (a1, a0) = (if a1_prime = of_nat ((DILITHIUM_Q - 1) div 128)
                      then (0, a - 1)
                      else (a1_prime, a - a1_prime * 128))
      in (a1, if a0 > 95 then a0 - 256 else a0))"

text \<open>\<open>a0\<close> is unsigned, so \<open>-DILITHIUM_GAMMA2\<close> is converted to \<open>2^32 - GAMMA2\<close> in the
  comparisons.\<close>

definition make_hint :: "u32 \<Rightarrow> u32 \<Rightarrow> nat" where
  "make_hint a0 a1 =
     (if a0 > of_nat DILITHIUM_GAMMA2 \<or> a0 < - of_nat DILITHIUM_GAMMA2 \<or>
         (a0 = - of_nat DILITHIUM_GAMMA2 \<and> a1 \<noteq> 0)
      then 1 else 0)"

definition use_hint :: "u32 \<Rightarrow> u32 \<Rightarrow> u32" where
  "use_hint a hint =
     (let (a1, a0) = decompose a
      in if hint = 0 then a1
         else if a0 > 0 then (a1 + 1) AND 15 else (a1 - 1) AND 15)"

text \<open>One row of a matrix-vector product as keypair, sign and verify compute it: the
  sum over \<open>j\<close> of the pointwise products of the transformed operands, then \<open>invntt\<close>.\<close>

definition matrix_row_product :: "u32 list list \<Rightarrow> u32 list list \<Rightarrow> u32 list" where
  "matrix_row_product Ai vec =
     dilithium_invntt
       (fold (\<lambda>j temp.
            let v_ntt = dilithium_ntt (vec ! j);
                a_ntt = dilithium_ntt (Ai ! j)
            in map (\<lambda>k. temp ! k +
                        dilithium_montgomery_reduce (ucast (a_ntt ! k) * ucast (v_ntt ! k)))
                 [0..<DILITHIUM_N])
          [0..<DILITHIUM_L] (replicate DILITHIUM_N 0))"

text \<open>The loop ``generate matrix A''; it starts from the uninitialised local.\<close>

definition expand_matrix :: "hashes \<Rightarrow> u32 list list list \<Rightarrow> u8 list \<Rightarrow> u32 list list list" where
  "expand_matrix H A0 rho =
     map (\<lambda>i. map (\<lambda>j. poly_uniform H (A0 ! i ! j) rho (of_nat (push_bit 8 i + j)))
                [0..<DILITHIUM_L])
       [0..<DILITHIUM_K]"

text \<open>Packing of one 10-bit coefficient of \<open>t1\<close> with \<open>|=\<close> into the caller's key, and
  its unpacking.\<close>

definition pack_t1 :: "nat \<Rightarrow> u32 \<Rightarrow> u8 list \<Rightarrow> u8 list" where
  "pack_t1 idx t bytes =
     (let b1 = bytes[idx * 10 div 8 :=
                 bytes ! (idx * 10 div 8) OR ucast (push_bit (idx * 10 mod 8) (t AND 0xFF))];
          b2 = (if idx * 10 mod 8 > 6
                then b1[idx * 10 div 8 + 1 :=
                       b1 ! (idx * 10 div 8 + 1) OR
                       ucast (drop_bit (8 - idx * 10 mod 8) t AND 0xFF)]
                else b1)
      in if idx * 10 mod 8 > 4
         then b2[idx * 10 div 8 + 2 :=
                b2 ! (idx * 10 div 8 + 2) OR
                ucast (drop_bit (16 - idx * 10 mod 8) t AND 0x03)]
         else b2)"

definition unpack_t1 :: "(nat \<Rightarrow> u8) \<Rightarrow> u8 list \<Rightarrow> nat \<Rightarrow> u32" where
  "unpack_t1 tail bytes idx =
     (let v0 = (ucast (drop_bit (idx * 10 mod 8) (rd tail bytes (idx * 10 div 8))) :: u32);
          v1 = (if idx * 10 mod 8 > 6
                then v0 OR push_bit (8 - idx * 10 mod 8)
                             (ucast (rd tail bytes (idx * 10 div 8 + 1)))
                else v0);
          v2 = (if idx * 10 mod 8 > 4
                then v1 OR push_bit (16 - idx * 10 mod 8)
                             (ucast (rd tail bytes (idx * 10 div 8 + 2)))
                else v1)
      in v2 AND (push_bit 10 1 - 1))"

definition dilithium_keypair ::
  "hashes \<Rightarrow> 'c dilithium_h \<Rightarrow> dilithium_stack \<Rightarrow> rng \<Rightarrow> dilithium_public_key_t option \<Rightarrow>
   'c dilithium_secret_key_t option \<Rightarrow>
   pqc_result_t \<times> dilithium_public_key_t option \<times> 'c dilithium_secret_key_t option \<times> rng" where
  "dilithium_keypair H hdr stk src pk sk =
     (case (pk, sk) of
        (Some pk0, Some sk0) \<Rightarrow>
          (let (r1, seedbuf, src1) = pqc_randombytes src (replicate 96 0) 96
           in if r1 \<noteq> PQC_SUCCESS then (PQC_ERROR_RANDOM_GENERATION, pk, sk, src1)
              else
                (let rho = h_shake256 H 32 (take 32 seedbuf) None;
                     rhoprime = h_shake256 H 64 (take 32 (drop 32 seedbuf)) None;
                     key = take 32 (drop 64 seedbuf);
                     A = expand_matrix H (A_uninit stk) rho;
                     s1 = map (\<lambda>i. poly_uniform_eta H (s1_uninit stk ! i) rhoprime (of_nat i))
                            [0..<DILITHIUM_L];
                     s2 = map (\<lambda>i. poly_uniform_eta H (s2_uninit stk ! i) rhoprime
                                     (of_nat (DILITHIUM_L + i)))
                            [0..<DILITHIUM_K];
                     t10 = map (\<lambda>i. let temp = matrix_row_product (A ! i) s1
                                     in map (\<lambda>j. power2round (reduce32 (temp ! j + s2 ! i ! j)))
                                          [0..<DILITHIUM_N])
                             [0..<DILITHIUM_K];
                     pk1 = \<lparr>dpk_rho = overlay (take 32 rho) (dpk_rho pk0),
                            dpk_t1 = fold (\<lambda>i b. fold (\<lambda>j b'.
                                             pack_t1 (i * DILITHIUM_N + j) (fst (t10 ! i ! j)) b')
                                           [0..<DILITHIUM_N] b)
                                       [0..<DILITHIUM_K] (dpk_t1 pk0)\<rparr>;
                     tr = h_shake256 H 64 (dilithium_pk_bytes pk1) None;
                     sk1 = \<lparr>dsk_rho = overlay (take 32 rho) (dsk_rho sk0),
                            dsk_key = overlay (take 32 key) (dsk_key sk0),
                            dsk_tr = overlay (take 64 tr) (dsk_tr sk0),
                            dsk_s1 = overlay (map (coeff_store hdr) (concat s1)) (dsk_s1 sk0),
                            dsk_s2 = overlay (map (coeff_store hdr) (concat s2)) (dsk_s2 sk0),
                            dsk_t0 = overlay (map (\<lambda>x. coeff_store hdr (snd x)) (concat t10))
                                       (dsk_t0 sk0)\<rparr>
                 in (PQC_SUCCESS, Some pk1, Some sk1, src1)))
      | _ \<Rightarrow> (PQC_ERROR_INVALID_PARAMETER, pk, sk, src))"

text \<open>Packing of the high bits \<open>w1\<close> (6 bits each) into a zeroed buffer; sign and verify
  contain the same loop.\<close>

definition pack_w1 :: "u32 list list \<Rightarrow> u8 list" where
  "pack_w1 w1 =
     fold (\<lambda>i b. fold (\<lambda>j b'.
              let idx = i * DILITHIUM_N + j;
                  x = w1 ! i ! j;
                  b1 = b'[idx * 6 div 8 :=
                         b' ! (idx * 6 div 8) OR ucast (push_bit (idx * 6 mod 8) (x AND 0x3F))]
              in if idx * 6 mod 8 > 2
                 then b1[idx * 6 div 8 + 1 :=
                        b1 ! (idx * 6 div 8 + 1) OR
                        ucast (drop_bit (8 - idx * 6 mod 8) x AND 0x3F)]
                 else b1)
            [0..<DILITHIUM_N] b)
       [0..<DILITHIUM_K] (replicate (DILITHIUM_K * DILITHIUM_N * 6 div 8) 0)"

text \<open>The challenge polynomial of \<open>dilithium_sign\<close>: it reads \<open>c[j]\<close> and \<open>c[j + 32]\<close> for
  \<open>j < 60\<close> from the 32-byte array \<open>c\<close>.\<close>

definition challenge_poly :: "(nat \<Rightarrow> u8) \<Rightarrow> u8 list \<Rightarrow> u32 list" where
  "challenge_poly tail c =
     fold (\<lambda>j cp. let p = ((ucast (rd tail c j) :: u32) OR
                          push_bit 8 (ucast (rd tail c (j + 32)))) AND 0xFF
                  in if unat p < DILITHIUM_N then cp[unat p := 1] else cp)
       [0..<DILITHIUM_TAU] (replicate DILITHIUM_N 0)"

text \<open>
  The range check on \<open>z\<close> in \<open>dilithium_sign\<close>:
  \<^verbatim>\<open>z[i][j] >= DILITHIUM_GAMMA1 - DILITHIUM_BETA || z[i][j] <= -(DILITHIUM_GAMMA1 - DILITHIUM_BETA)\<close>.
  \<open>z[i][j]\<close> is a \<open>uint32_t\<close>, so both bounds are converted to \<open>unsigned\<close>.
\<close>

definition z_out_of_range :: "u32 \<Rightarrow> bool" where
  "z_out_of_range z =
     (z \<ge> of_nat (DILITHIUM_GAMMA1 - DILITHIUM_BETA) \<or>
      z \<le> - of_nat (DILITHIUM_GAMMA1 - DILITHIUM_BETA))"

text \<open>The loop over \<open>j\<close> that computes row \<open>i\<close> of \<open>z\<close> and leaves at the first
  coefficient out of range; the result is the row and the flag \<open>valid\<close>.\<close>

function z_row :: "u32 list \<Rightarrow> u32 list \<Rightarrow> u32 list \<Rightarrow> nat \<Rightarrow> u32 list \<times> bool" where
  "z_row yi cs1 zi j =
     (if j < DILITHIUM_N then
        (let zi' = zi[j := yi ! j + cs1 ! j]
         in if z_out_of_range (zi' ! j) then (zi', False)
            else z_row yi cs1 zi' (j + 1))
      else (zi, True))"
  by pat_completeness auto
termination
  by (relation "measure (\<lambda>(yi, cs1, zi, j). DILITHIUM_N - j)") auto

definition cs1_poly :: "(nat \<Rightarrow> u8) \<Rightarrow> u8 list \<Rightarrow> u32 list \<Rightarrow> u32 list" where
  "cs1_poly tail c s1i =
     (let c_poly = dilithium_ntt (challenge_poly tail c);
          s1_ntt = dilithium_ntt s1i
      in dilithium_invntt
           (map (\<lambda>j. dilithium_montgomery_reduce (ucast (c_poly ! j) * ucast (s1_ntt ! j)))
              [0..<DILITHIUM_N]))"

function z_rows ::
  "(nat \<Rightarrow> u8) \<Rightarrow> u8 list \<Rightarrow> u32 list list \<Rightarrow> u32 list list \<Rightarrow> u32 list list \<Rightarrow> nat \<Rightarrow>
   u32 list list \<times> bool" where
  "z_rows tail c s1 y z i =
     (if i < DILITHIUM_L then
        (let (zi, valid) = z_row (y ! i) (cs1_poly tail c (s1 ! i)) (z ! i) 0
         in if \<not> valid then (z[i := zi], False)
            else z_rows tail c s1 y (z[i := zi]) (i + 1))
      else (z, True))"
  by pat_completeness auto
termination
  by (relation "measure (\<lambda>(tail, c, s1, y, z, i). DILITHIUM_L - i)") auto

text \<open>One pass through the body of the signing loop \<open>while (1)\<close>: either the pass ends
  in \<open>nonce++; continue\<close>, or it packs the signature and leaves the loop.\<close>

datatype sign_pass = Retry | Signed "u8 list"

definition le24 :: "u32 \<Rightarrow> u8 list" where
  "le24 t = [ucast (t AND 0xFF), ucast (drop_bit 8 t AND 0xFF), ucast (drop_bit 16 t AND 0xFF)]"

definition sign_pass ::
  "hashes \<Rightarrow> dilithium_stack \<Rightarrow> u32 list list list \<Rightarrow> u32 list list \<Rightarrow> u32 list list \<Rightarrow>
   u8 list \<Rightarrow> u8 list \<Rightarrow> u32 \<Rightarrow> sign_pass" where
  "sign_pass H stk A s1 s2 mu rhoprime nonce =
     (let y = map (\<lambda>i. poly_uniform_gamma1 H (gamma1_tail stk) rhoprime
                        (ucast (of_nat DILITHIUM_L * nonce + of_nat i)))
                [0..<DILITHIUM_L];
          w = map (\<lambda>i. let temp = matrix_row_product (A ! i) y
                        in map (\<lambda>j. decompose (reduce32 (temp ! j))) [0..<DILITHIUM_N])
                [0..<DILITHIUM_K];
          w1 = map (map fst) w;
          w0 = map (map snd) w;
          c = h_shake256 H 32 (take 64 mu) (Some (pack_w1 w1));
          (z, valid) = z_rows (c_tail stk) c s1 y
                         (replicate DILITHIUM_L (replicate DILITHIUM_N 0)) 0
      in if \<not> valid then Retry
         else
           (let h = map (\<lambda>i. map (\<lambda>j. make_hint (w0 ! i ! j - s2 ! i ! j) (w1 ! i ! j))
                               [0..<DILITHIUM_N])
                      [0..<DILITHIUM_K];
                hint_count = sum_list (map sum_list h)
            in if hint_count > DILITHIUM_OMEGA then Retry
               else Signed
                      (take 32 c @ concat (map (\<lambda>zi. concat (map le24 zi)) z) @
                       concat (map (\<lambda>hi. map of_nat (filter (\<lambda>j. hi ! j \<noteq> 0) [0..<DILITHIUM_N]))
                                 h))))"

text \<open>The loop itself. \<open>nonce\<close> is an \<open>int\<close> that the loop increments without bound; the
  model lets it wrap at 32 bits. A run of the loop that never ends is the value \<open>None\<close>.\<close>

partial_function (option) sign_loop ::
  "hashes \<Rightarrow> dilithium_stack \<Rightarrow> u32 list list list \<Rightarrow> u32 list list \<Rightarrow> u32 list list \<Rightarrow>
   u8 list \<Rightarrow> u8 list \<Rightarrow> u32 \<Rightarrow> u8 list option" where
  "sign_loop H stk A s1 s2 mu rhoprime nonce =
     (case sign_pass H stk A s1 s2 mu rhoprime nonce of
        Retry \<Rightarrow> sign_loop H stk A s1 s2 mu rhoprime (nonce + 1)
      | Signed sig \<Rightarrow> Some sig)"

text \<open>
  \<open>dilithium_sign\<close>. The result \<open>None\<close> means that the call does not return. The
  signature is written from the start of the caller's buffer, and \<open>*siglen\<close> is set to
  the number of bytes written.
\<close>

definition dilithium_sign ::
  "hashes \<Rightarrow> 'c dilithium_h \<Rightarrow> dilithium_stack \<Rightarrow> rng \<Rightarrow> u8 list option \<Rightarrow> nat option \<Rightarrow>
   u8 list option \<Rightarrow> 'c dilithium_secret_key_t option \<Rightarrow>
   (pqc_result_t \<times> u8 list option \<times> nat option \<times> rng) option" where
  "dilithium_sign H hdr stk src signature siglen message sk =
     (case (signature, siglen, message, sk) of
        (Some sig0, Some len0, Some msg, Some skv) \<Rightarrow>
          (let s1 = map (\<lambda>i. map (\<lambda>j. coeff_load hdr (dsk_s1 skv ! (i * DILITHIUM_N + j)))
                               [0..<DILITHIUM_N])
                      [0..<DILITHIUM_L];
               s2 = map (\<lambda>i. map (\<lambda>j. coeff_load hdr (dsk_s2 skv ! (i * DILITHIUM_N + j)))
                               [0..<DILITHIUM_N])
                      [0..<DILITHIUM_K];
               A = expand_matrix H (A_uninit stk) (dsk_rho skv);
               mu = h_shake256 H 64 (take 64 (dsk_tr skv)) (Some msg);
               (r1, rhoprime, src1) = pqc_randombytes src (replicate 64 0) 64
           in if r1 \<noteq> PQC_SUCCESS
              then Some (PQC_ERROR_RANDOM_GENERATION, signature, siglen, src1)
              else (case sign_loop H stk A s1 s2 mu rhoprime 0 of
                      None \<Rightarrow> None
                    | Some sig \<Rightarrow>
                        Some (PQC_SUCCESS, Some (overlay sig sig0), Some (length sig), src1)))
      | _ \<Rightarrow> Some (PQC_ERROR_INVALID_PARAMETER, signature, siglen, src))"

text \<open>Unpacking of \<open>z\<close> in \<open>dilithium_verify\<close>: three bytes per coefficient as long as
  the signature reaches; \<open>None\<close> is the return of \<open>PQC_ERROR_INVALID_SIGNATURE\<close> from
  inside the loop.\<close>

function unpack_z_row ::
  "(nat \<Rightarrow> u8) \<Rightarrow> u8 list \<Rightarrow> nat \<Rightarrow> u32 list \<Rightarrow> nat \<Rightarrow> nat \<Rightarrow> (u32 list \<times> nat) option" where
  "unpack_z_row tail signature siglen zi j sig_pos =
     (if j < DILITHIUM_N \<and> sig_pos + 2 < siglen then
        (let v = (ucast (rd tail signature sig_pos) OR
                  push_bit 8 (ucast (rd tail signature (sig_pos + 1))) OR
                  push_bit 16 (ucast (rd tail signature (sig_pos + 2))) :: u32)
         in if v \<ge> of_nat (DILITHIUM_GAMMA1 - DILITHIUM_BETA) then None
            else unpack_z_row tail signature siglen (zi[j := v]) (j + 1) (sig_pos + 3))
      else Some (zi, sig_pos))"
  by pat_completeness auto
termination
  by (relation "measure (\<lambda>(tail, signature, siglen, zi, j, sig_pos). DILITHIUM_N - j)") auto

function unpack_z ::
  "(nat \<Rightarrow> u8) \<Rightarrow> u8 list \<Rightarrow> nat \<Rightarrow> u32 list list \<Rightarrow> nat \<Rightarrow> nat \<Rightarrow>
   (u32 list list \<times> nat) option" where
  "unpack_z tail signature siglen z i sig_pos =
     (if i < DILITHIUM_L then
        (case unpack_z_row tail signature siglen (z ! i) 0 sig_pos of
           None \<Rightarrow> None
         | Some (zi, sig_pos') \<Rightarrow> unpack_z tail signature siglen (z[i := zi]) (i + 1) sig_pos')
      else Some (z, sig_pos))"
  by pat_completeness auto
termination
  by (relation "measure (\<lambda>(tail, signature, siglen, z, i, sig_pos). DILITHIUM_L - i)") auto

text \<open>The ``simplified hint unpacking'': every remaining byte of the signature sets one
  entry of row 0 of \<open>h\<close>.\<close>

definition unpack_hint :: "(nat \<Rightarrow> u8) \<Rightarrow> u8 list \<Rightarrow> nat \<Rightarrow> nat \<Rightarrow> u32 list list" where
  "unpack_hint tail signature siglen sig_pos =
     fold (\<lambda>p h. let hpos = unat (rd tail signature p)
                 in if hpos < DILITHIUM_N then h[0 := (h ! 0)[hpos := 1]] else h)
       [sig_pos..<siglen] (replicate DILITHIUM_K (replicate DILITHIUM_N 0))"

definition dilithium_verify ::
  "hashes \<Rightarrow> dilithium_stack \<Rightarrow> u8 list option \<Rightarrow> nat \<Rightarrow> u8 list option \<Rightarrow>
   dilithium_public_key_t option \<Rightarrow> pqc_result_t" where
  "dilithium_verify H stk signature siglen message pk =
     (case (signature, message, pk) of
        (Some sig, Some msg, Some pkv) \<Rightarrow>
          if siglen < 32 then PQC_ERROR_INVALID_PARAMETER
          else
            (let c = take 32 sig
             in case unpack_z (sig_tail stk) sig siglen (z_uninit stk) 0 32 of
                  None \<Rightarrow> PQC_ERROR_INVALID_SIGNATURE
                | Some (z, sig_pos) \<Rightarrow>
                    (let h = unpack_hint (sig_tail stk) sig siglen sig_pos;
                         A = expand_matrix H (A_uninit stk) (dpk_rho pkv);
                         t1 = map (\<lambda>i. map (\<lambda>j. unpack_t1 (t1_tail stk) (dpk_t1 pkv)
                                                   (i * DILITHIUM_N + j))
                                         [0..<DILITHIUM_N])
                                [0..<DILITHIUM_K];
                         tr = h_shake256 H 64 (dilithium_pk_bytes pkv) None;
                         mu = h_shake256 H 64 (take 64 tr) (Some msg);
                         w1_prime =
                           map (\<lambda>i. let temp = matrix_row_product (A ! i) z
                                     in map (\<lambda>j. use_hint
                                                   (reduce32 (temp ! j -
                                                      push_bit DILITHIUM_D (t1 ! i ! j)))
                                                   (h ! i ! j))
                                          [0..<DILITHIUM_N])
                             [0..<DILITHIUM_K];
                         c_computed = h_shake256 H 32 (take 64 mu) (Some (pack_w1 w1_prime))
                     in if secure_memcmp c c_computed 32 \<noteq> 0
                        then PQC_ERROR_INVALID_SIGNATURE else PQC_SUCCESS))
      | _ \<Rightarrow> PQC_ERROR_INVALID_PARAMETER)"

section \<open>attestation\_engine.c\<close>

definition MAX_MEASUREMENT_LOG_ENTRIES :: nat where "MAX_MEASUREMENT_LOG_ENTRIES = 256"
definition MAX_MEASUREMENTS_PER_REPORT :: nat where "MAX_MEASUREMENTS_PER_REPORT = 32"
definition ATTESTATION_REPORT_VERSION :: u32 where "ATTESTATION_REPORT_VERSION = 1"
definition MEASUREMENT_TYPE_MAX :: u32 where "MEASUREMENT_TYPE_MAX = 8"

datatype trust_level_t =
    TRUST_LEVEL_UNKNOWN | TRUST_LEVEL_LOW | TRUST_LEVEL_MEDIUM | TRUST_LEVEL_HIGH
  | TRUST_LEVEL_CRITICAL

datatype attestation_error_t =
    ATTESTATION_ERROR_NONE
  | ATTESTATION_ERROR_INVALID_FORMAT
  | ATTESTATION_ERROR_SIGNATURE_INVALID
  | ATTESTATION_ERROR_TIMESTAMP_INVALID
  | ATTESTATION_ERROR_INVALID_PCR
  | ATTESTATION_ERROR_INVALID_MEASUREMENT
  | ATTESTATION_ERROR_POLICY_VIOLATION
  | ATTESTATION_ERROR_EXPIRED
  | ATTESTATION_ERROR_REVOKED
  | ATTESTATION_ERROR_UNKNOWN_DEVICE

text \<open>The structs of attestation\_engine.h. Enumeration-typed fields that are read
  from received data (\<open>measurement_type\<close>, \<open>device_type\<close>) are 32-bit words.\<close>

record device_info_t =
  serial_number :: "u8 list"
  di_device_type :: u32
  hardware_version :: u32
  firmware_version :: u32
  manufacturer_id :: "u8 list"
  model_id :: "u8 list"

record platform_measurement_t =
  pcr_index :: u8
  measurement_type :: u32
  measurement_value :: "u8 list"
  pm_timestamp :: u64
  measurement_size :: u32
  description :: "u8 list"

record measurement_log_t =
  log_count :: nat
  log_capacity :: nat
  log_measurements :: "platform_measurement_t list"

record attestation_report_t =
  ar_device_id :: "u8 list"
  ar_timestamp :: u64
  report_version :: u32
  measurement_count :: u32
  ar_pcr_values :: "u8 list list"
  ar_measurements :: "platform_measurement_t list"
  signature_length :: u32
  ar_signature :: "u8 list"

record attestation_verification_result_t =
  is_valid :: bool
  error_code :: attestation_error_t
  trust_level :: trust_level_t
  vr_device_id :: "u8 list"
  vr_timestamp :: u64
  policies_met :: u32
  error_description :: "u8 list"

record attestation_config_t =
  cfg_device_type :: u32
  device_serial :: "u8 list"
  enable_continuous_monitoring :: bool
  attestation_interval_minutes :: u32
  require_tpm_presence :: bool
  enable_measurement_log :: bool
  max_log_entries :: u32

record 'c attestation_context_t =
  ctx_config :: attestation_config_t
  device_info :: device_info_t
  device_keypair :: "'c dilithium_keypair_t"
  device_keypair_valid :: bool
  ctx_pcr_values :: "u8 list list"
  pcr_valid :: "bool list"
  measurement_log :: measurement_log_t
  last_attestation_time :: u64

text \<open>The static objects of the engine and of the TPM simulation, and the random source
  the engine draws from.\<close>

record 'c engine =
  g_attestation_ctx :: "'c attestation_context_t"
  g_attestation_initialized :: bool
  tpm_state :: tpm_state_t
  entropy :: rng

definition calculate_sha256 :: "hashes \<Rightarrow> u8 list \<Rightarrow> u8 list" where
  "calculate_sha256 H bytes = h_sha3_256 H bytes"

text \<open>
  \<open>extend_pcr\<close>. The engine calls the TPM's extend under the name \<open>tpm2_extend_pcr\<close>
  (the prototype of tpm2\_interface.h); the function that tmp2\_interface.c defines is
  \<open>tmp2_extend_pcr\<close>. \<open>measurement\<close> is an array of the caller.
\<close>

definition extend_pcr ::
  "hashes \<Rightarrow> 'c engine \<Rightarrow> u8 \<Rightarrow> u8 list \<Rightarrow> pqc_result_t \<times> 'c engine" where
  "extend_pcr H eng pcr_idx measurement =
     (if unat pcr_idx \<ge> MAX_PCR_REGISTERS then (PQC_ERROR_INVALID_PARAMETER, eng)
      else
        (let (r1, cur) = tpm2_read_pcr (tpm_state eng) pcr_idx (Some (replicate 32 0))
         in if r1 \<noteq> PQC_SUCCESS then (r1, eng)
            else
              (let current_pcr = the cur;
                   extend_data = take 32 current_pcr @ take 32 measurement;
                   new_pcr = calculate_sha256 H extend_data;
                   (r2, tpm') = tmp2_extend_pcr H (tpm_state eng) pcr_idx (Some measurement)
               in if r2 \<noteq> PQC_SUCCESS then (r2, eng\<lparr>tpm_state := tpm'\<rparr>)
                  else
                    (let ctx = g_attestation_ctx eng;
                         ctx' = ctx\<lparr>ctx_pcr_values :=
                                      (ctx_pcr_values ctx)[unat pcr_idx := take 32 new_pcr],
                                    pcr_valid := (pcr_valid ctx)[unat pcr_idx := True]\<rparr>
                     in (PQC_SUCCESS, eng\<lparr>tpm_state := tpm', g_attestation_ctx := ctx'\<rparr>)))))"

text \<open>\<open>strlen\<close> and \<open>strncpy\<close> on character arrays that hold a terminating zero.\<close>

definition strlen :: "u8 list \<Rightarrow> nat" where
  "strlen s = length (takeWhile (\<lambda>c. c \<noteq> 0) s)"

definition strncpy :: "u8 list \<Rightarrow> u8 list \<Rightarrow> nat \<Rightarrow> u8 list" where
  "strncpy dest src n =
     (let s = take n (takeWhile (\<lambda>c. c \<noteq> 0) src)
      in overlay (s @ replicate (n - length s) 0) dest)"

definition attestation_init ::
  "hashes \<Rightarrow> 'c dilithium_h \<Rightarrow> dilithium_stack \<Rightarrow> 'c engine \<Rightarrow> attestation_config_t option \<Rightarrow>
   pqc_result_t \<times> 'c engine" where
  "attestation_init H hdr stk eng config =
     (case config of
        None \<Rightarrow> (PQC_ERROR_INVALID_PARAMETER, eng)
      | Some cfg \<Rightarrow>
          if g_attestation_initialized eng then (PQC_SUCCESS, eng)
          else
            (let (r, tpm') = tpm2_init (tpm_state eng);
                 eng1 = eng\<lparr>tpm_state := tpm'\<rparr>
             in if r \<noteq> PQC_SUCCESS then (r, eng1)
                else
                  (let ctx = g_attestation_ctx eng1;
                       di = device_info ctx;
                       di1 = (if strlen (device_serial cfg) > 0
                              then di\<lparr>serial_number :=
                                        strncpy (serial_number di) (device_serial cfg) 63\<rparr>
                              else di);
                       di2 = di1\<lparr>di_device_type := cfg_device_type cfg,
                                  hardware_version := 1, firmware_version := 1\<rparr>;
                       ctx1 = ctx\<lparr>ctx_config := cfg, device_info := di2,
                                   ctx_pcr_values := replicate MAX_PCR_REGISTERS (replicate 32 0),
                                   pcr_valid := replicate MAX_PCR_REGISTERS False\<rparr>
                   in if \<not> device_keypair_valid ctx1 then
                        (let (r2, pk', sk', src') =
                               dilithium_keypair H hdr stk (entropy eng1)
                                 (Some (kp_pk (device_keypair ctx1)))
                                 (Some (kp_sk (device_keypair ctx1)));
                             ctx2 = ctx1\<lparr>device_keypair :=
                                           \<lparr>kp_pk = the pk', kp_sk = the sk'\<rparr>\<rparr>
                         in if r2 \<noteq> PQC_SUCCESS
                            then (r2, eng1\<lparr>g_attestation_ctx := ctx2, entropy := src'\<rparr>)
                            else
                              (PQC_SUCCESS,
                               eng1\<lparr>g_attestation_ctx :=
                                      ctx2\<lparr>device_keypair_valid := True,
                                           measurement_log := (measurement_log ctx2)
                                             \<lparr>log_count := 0,
                                              log_capacity := MAX_MEASUREMENT_LOG_ENTRIES\<rparr>\<rparr>,
                                    entropy := src',
                                    g_attestation_initialized := True\<rparr>))
                      else
                        (PQC_SUCCESS,
                         eng1\<lparr>g_attestation_ctx :=
                                ctx1\<lparr>measurement_log := (measurement_log ctx1)
                                       \<lparr>log_count := 0,
                                        log_capacity := MAX_MEASUREMENT_LOG_ENTRIES\<rparr>\<rparr>,
                              g_attestation_initialized := True\<rparr>))))"

text \<open>
  The timestamp test of \<open>attestation_verify_report\<close>,
  \<^verbatim>\<open>abs((int)(current_time - report->timestamp)) > 300\<close>. \<open>report->timestamp\<close> is a
  \<open>uint64_t\<close>, so the difference is taken in 64 bits without sign; the cast keeps its
  low 32 bits as a signed \<open>int\<close>. \<open>abs\<close> of the least \<open>int\<close> (not defined in C) is that
  value again.
\<close>

definition timestamp_skew_exceeded :: "u64 \<Rightarrow> u64 \<Rightarrow> bool" where
  "timestamp_skew_exceeded current_time ts =
     (let d = (ucast (current_time - ts) :: u32);
          a = (if d <s 0 then - d else d)
      in 300 <s a)"

text \<open>The loop over the measurements of the report; the result is the error code of the
  first measurement that fails a test.\<close>

function check_measurements ::
  "platform_measurement_t list \<Rightarrow> nat \<Rightarrow> nat \<Rightarrow> attestation_error_t option" where
  "check_measurements ms count i =
     (if i < count then
        (if unat (pcr_index (ms ! i)) \<ge> MAX_PCR_REGISTERS then Some ATTESTATION_ERROR_INVALID_PCR
         else if measurement_type (ms ! i) \<ge> MEASUREMENT_TYPE_MAX
         then Some ATTESTATION_ERROR_INVALID_MEASUREMENT
         else check_measurements ms count (i + 1))
      else None)"
  by pat_completeness auto
termination
  by (relation "measure (\<lambda>(ms, count, i). count - i)") auto

text \<open>\<open>memset (result_out, 0, sizeof ...)\<close> followed by \<open>is_valid = false\<close>.\<close>

definition result_zero :: attestation_verification_result_t where
  "result_zero =
     \<lparr>is_valid = False, error_code = ATTESTATION_ERROR_NONE, trust_level = TRUST_LEVEL_UNKNOWN,
      vr_device_id = replicate 32 0, vr_timestamp = 0, policies_met = 0,
      error_description = replicate 128 0\<rparr>"

text \<open>
  \<open>attestation_verify_report\<close>. The report is hashed through a byte pointer over its
  first \<open>sizeof (attestation_report_t) - sizeof (report->signature)\<close> bytes; which bytes
  these are depends on the padding the compiler inserts and on
  \<open>DILITHIUM_SIGNATUREBYTES\<close> (declared in the missing dilithium.h), so the function
  \<open>signed_region\<close> that maps a report to these bytes is a parameter. \<open>current_time\<close> is the value
  that \<open>time (NULL)\<close> returns, converted to 64 bits as the subtraction does.
\<close>

definition attestation_verify_report ::
  "hashes \<Rightarrow> dilithium_stack \<Rightarrow> (attestation_report_t \<Rightarrow> u8 list) \<Rightarrow> u64 \<Rightarrow>
   attestation_report_t option \<Rightarrow> dilithium_public_key_t option \<Rightarrow>
   attestation_verification_result_t option \<Rightarrow>
   pqc_result_t \<times> attestation_verification_result_t option" where
  "attestation_verify_report H stk signed_region current_time report device_public_key result_out =
     (case (report, device_public_key, result_out) of
        (Some rep, Some pk, Some res0) \<Rightarrow>
          if report_version rep \<noteq> ATTESTATION_REPORT_VERSION
          then (PQC_SUCCESS, Some (result_zero\<lparr>error_code := ATTESTATION_ERROR_INVALID_FORMAT\<rparr>))
          else if unat (measurement_count rep) > MAX_MEASUREMENTS_PER_REPORT
          then (PQC_SUCCESS, Some (result_zero\<lparr>error_code := ATTESTATION_ERROR_INVALID_FORMAT\<rparr>))
          else
            (let report_hash = calculate_sha256 H (signed_region rep)
             in if dilithium_verify H stk (Some (ar_signature rep)) (unat (signature_length rep))
                     (Some (take 32 report_hash)) (Some pk) \<noteq> PQC_SUCCESS
                then (PQC_SUCCESS,
                      Some (result_zero\<lparr>error_code := ATTESTATION_ERROR_SIGNATURE_INVALID\<rparr>))
                else if timestamp_skew_exceeded current_time (ar_timestamp rep)
                then (PQC_SUCCESS,
                      Some (result_zero\<lparr>error_code := ATTESTATION_ERROR_TIMESTAMP_INVALID\<rparr>))
                else
                  (case check_measurements (ar_measurements rep) (unat (measurement_count rep)) 0 of
                     Some err \<Rightarrow> (PQC_SUCCESS, Some (result_zero\<lparr>error_code := err\<rparr>))
                   | None \<Rightarrow>
                       (PQC_SUCCESS,
                        Some (result_zero\<lparr>is_valid := True, error_code := ATTESTATION_ERROR_NONE,
                                          trust_level := TRUST_LEVEL_HIGH,
                                          vr_device_id := take 32 (ar_device_id rep),
                                          vr_timestamp := ar_timestamp rep\<rparr>))))
      | _ \<Rightarrow> (PQC_ERROR_INVALID_PARAMETER, result_out))"

text \<open>
  The bytes of a report on a little-endian target with natural alignment and zeroed
  padding, as \<open>attestation_generate_report\<close> leaves it after its \<open>memset\<close>: a measurement
  takes 120 bytes (three padding bytes after \<open>pcr_index\<close>, four after \<open>description\<close>),
  \<open>signature_length\<close> lies at offset 4144 and the signature at 4148.

  Modelled from the spec: \<open>DILITHIUM_SIGNATUREBYTES\<close> is 4595, so the struct has one
  byte of padding at its end and \<open>sizeof (attestation_report_t) - sizeof (signature)\<close> is
  4149: the hashed region ends one byte into the signature.
\<close>

definition le32 :: "u32 \<Rightarrow> u8 list" where
  "le32 x = map (\<lambda>k. ucast (drop_bit (8 * k) x)) [0..<4]"

definition le64 :: "u64 \<Rightarrow> u8 list" where
  "le64 x = map (\<lambda>k. ucast (drop_bit (8 * k) x)) [0..<8]"

definition measurement_bytes :: "platform_measurement_t \<Rightarrow> u8 list" where
  "measurement_bytes m =
     [pcr_index m] @ replicate 3 0 @ le32 (measurement_type m) @ measurement_value m @
     le64 (pm_timestamp m) @ le32 (measurement_size m) @ description m @ replicate 4 0"

definition report_image :: "attestation_report_t \<Rightarrow> u8 list" where
  "report_image rep =
     ar_device_id rep @ le64 (ar_timestamp rep) @ le32 (report_version rep) @
     le32 (measurement_count rep) @ concat (ar_pcr_values rep) @
     concat (map measurement_bytes (ar_measurements rep)) @ le32 (signature_length rep) @
     take 1 (ar_signature rep)"

section \<open>Concrete inputs\<close>

text \<open>Indeterminate memory that happens to hold zeros, and the secret-key layout in
  which a coefficient is stored as the 32-bit word it is.\<close>

definition kyber_stack_zero :: kyber_stack where
  "kyber_stack_zero =
     \<lparr>buf_tail = (\<lambda>i. 0),
      ct_prime_uninit = \<lparr>kct_u = replicate 1408 0, kct_v = replicate 160 0\<rparr>,
      K_uninit = replicate 32 0\<rparr>"

definition dilithium_stack_zero :: dilithium_stack where
  "dilithium_stack_zero =
     \<lparr>A_uninit = replicate DILITHIUM_K (replicate DILITHIUM_L (replicate DILITHIUM_N 0)),
      s1_uninit = replicate DILITHIUM_L (replicate DILITHIUM_N 0),
      s2_uninit = replicate DILITHIUM_K (replicate DILITHIUM_N 0),
      z_uninit = replicate DILITHIUM_L (replicate DILITHIUM_N 0),
      gamma1_tail = (\<lambda>i. 0), c_tail = (\<lambda>i. 0), t1_tail = (\<lambda>i. 0), sig_tail = (\<lambda>i. 0)\<rparr>"

definition words_h :: "u32 dilithium_h" where
  "words_h = \<lparr>coeff_store = (\<lambda>x. x), coeff_load = (\<lambda>x. x)\<rparr>"

section \<open>Claim C10: NULL arguments\<close>

text \<open>
  C10. Each of \<open>kyber_keypair\<close>, \<open>kyber_decapsulate\<close>, \<open>dilithium_sign\<close> and \<open>sha3_256\<close>
  (in both of its definitions), called with \<open>NULL\<close> for any pointer argument it requires,
  returns \<open>PQC_ERROR_INVALID_PARAMETER\<close> and leaves every output object and the random
  source as they were. (The functions have no access to any other state.)
\<close>

theorem null_arguments_rejected:
  "(pk = None \<or> sk = None \<longrightarrow>
      kyber_keypair H kstk src pk sk = (PQC_ERROR_INVALID_PARAMETER, pk, sk, src)) \<and>
   (ss = None \<or> ct = None \<or> ksk = None \<longrightarrow>
      kyber_decapsulate H kstk src ss ct ksk = (PQC_ERROR_INVALID_PARAMETER, ss, src)) \<and>
   (sig = None \<or> siglen = None \<or> msg = None \<or> dsk = None \<longrightarrow>
      dilithium_sign H hdr dstk src sig siglen msg dsk =
        Some (PQC_ERROR_INVALID_PARAMETER, sig, siglen, src)) \<and>
   (hash = None \<or> input = None \<longrightarrow>
      sha3_256_enhanced hash input = (PQC_ERROR_INVALID_PARAMETER, hash) \<and>
      sha3_256 hash input = (PQC_ERROR_INVALID_PARAMETER, hash) \<and>
      sha3_256_gen1 hash input = (PQC_ERROR_INVALID_PARAMETER, hash))"
proof (intro conjI impI)
  assume "pk = None \<or> sk = None"
  then show "kyber_keypair H kstk src pk sk = (PQC_ERROR_INVALID_PARAMETER, pk, sk, src)"
    by (auto simp: kyber_keypair_def split: option.splits)
next
  assume "ss = None \<or> ct = None \<or> ksk = None"
  then show "kyber_decapsulate H kstk src ss ct ksk = (PQC_ERROR_INVALID_PARAMETER, ss, src)"
    by (auto simp: kyber_decapsulate_def split: option.splits)
next
  assume "sig = None \<or> siglen = None \<or> msg = None \<or> dsk = None"
  then show "dilithium_sign H hdr dstk src sig siglen msg dsk =
        Some (PQC_ERROR_INVALID_PARAMETER, sig, siglen, src)"
    by (auto simp: dilithium_sign_def split: option.splits)
next
  assume h: "hash = None \<or> input = None"
  then show "sha3_256_enhanced hash input = (PQC_ERROR_INVALID_PARAMETER, hash)"
    by (auto simp: sha3_256_enhanced_def split: option.splits)
  from h show "sha3_256 hash input = (PQC_ERROR_INVALID_PARAMETER, hash)"
    by (auto simp: sha3_256_def sha3_256_enhanced_def split: option.splits)
  from h show "sha3_256_gen1 hash input = (PQC_ERROR_INVALID_PARAMETER, hash)"
    by (auto simp: sha3_256_gen1_def split: option.splits)
qed

theorem null_arguments_rejected_witness:
  "kyber_keypair gen2_hashes kyber_stack_zero [1, 2, 3] None None =
     (PQC_ERROR_INVALID_PARAMETER, None, None, [1, 2, 3]) \<and>
   kyber_decapsulate gen2_hashes kyber_stack_zero [1, 2, 3] (Some (replicate 32 7)) None None =
     (PQC_ERROR_INVALID_PARAMETER, Some (replicate 32 7), [1, 2, 3]) \<and>
   dilithium_sign gen2_hashes words_h dilithium_stack_zero [1, 2, 3] (Some [9, 9]) (Some 2)
       (Some [0x61]) None =
     Some (PQC_ERROR_INVALID_PARAMETER, Some [9, 9], Some 2, [1, 2, 3]) \<and>
   sha3_256 (Some (replicate 32 7)) None = (PQC_ERROR_INVALID_PARAMETER, Some (replicate 32 7))"
  using null_arguments_rejected [of None None gen2_hashes kyber_stack_zero "[1, 2, 3]"
      "Some (replicate 32 7)" None None "Some [9, 9]" "Some 2" "Some [0x61]" None words_h
      dilithium_stack_zero "Some (replicate 32 7)" None]
  by simp

end
